theory Spec2Isabelle
  imports Complex_Main "HOL-Library.Sublist" "HOL-Library.Multiset"
begin

section \<open>JavaScript values used by the simulation core\<close>

text \<open>
  JavaScript numbers are modelled as \<^typ>\<open>real\<close>: the arithmetic of the model is exact, the
  rounding of IEEE doubles is not represented. An exception thrown by the program is a
  value of \<open>js_error\<close>; a method that mutates \<open>this\<close> and may throw returns the mutated
  object together with \<open>Inl\<close> of the error or \<open>Inr\<close> of the returned value, since the
  mutations made before a \<open>throw\<close> stay in place.
\<close>

datatype js_error = TypeError | ReferenceError | RangeError

type_synonym vec3 = "real \<times> real \<times> real"

type_synonym lnglat = "real \<times> real"

text \<open>The map instance is used only through \<open>map.project(lngLat)\<close>.\<close>

type_synonym map_handle = "lnglat \<Rightarrow> real \<times> real"

text \<open>\<open>Math.random()\<close>: the draws of one call, in the order the code makes them.\<close>

type_synonym draws = "nat \<Rightarrow> real"

section \<open>models/lakes.js: the lake type configuration\<close>

record range =
  rmin :: real
  rmax :: real

record lake_config =
  particleCount :: int
  particleSize :: range
  particleLifespan :: range
  glowIntensity_c :: real
  color_c :: string
  pulseFrequency :: real
  flowPattern_c :: string

definition LAKE_CONFIG :: "string \<Rightarrow> lake_config option" where
  "LAKE_CONFIG k =
    (if k = ''Freshwater Lake'' then Some
       \<lparr>particleCount = 1000, particleSize = \<lparr>rmin = 0.5, rmax = 2.0\<rparr>,
        particleLifespan = \<lparr>rmin = 3000, rmax = 4500\<rparr>, glowIntensity_c = 1.0,
        color_c = ''#4a90e2'', pulseFrequency = 1.0, flowPattern_c = ''gentle-ripple''\<rparr>
     else if k = ''High Altitude Lake'' then Some
       \<lparr>particleCount = 1200, particleSize = \<lparr>rmin = 0.7, rmax = 2.2\<rparr>,
        particleLifespan = \<lparr>rmin = 3800, rmax = 4800\<rparr>, glowIntensity_c = 1.2,
        color_c = ''#48f2ff'', pulseFrequency = 0.8, flowPattern_c = ''mountain-current''\<rparr>
     else if k = ''Urban Lake'' then Some
       \<lparr>particleCount = 900, particleSize = \<lparr>rmin = 0.6, rmax = 1.9\<rparr>,
        particleLifespan = \<lparr>rmin = 3200, rmax = 4200\<rparr>, glowIntensity_c = 0.8,
        color_c = ''#2aacff'', pulseFrequency = 1.1, flowPattern_c = ''urban-flow''\<rparr>
     else if k = ''Sacred Lake'' then Some
       \<lparr>particleCount = 1500, particleSize = \<lparr>rmin = 0.8, rmax = 2.5\<rparr>,
        particleLifespan = \<lparr>rmin = 4000, rmax = 5000\<rparr>, glowIntensity_c = 1.5,
        color_c = ''#ffcd6b'', pulseFrequency = 0.5, flowPattern_c = ''sacred-spiral''\<rparr>
     else if k = ''Salt Lake'' then Some
       \<lparr>particleCount = 800, particleSize = \<lparr>rmin = 0.6, rmax = 1.8\<rparr>,
        particleLifespan = \<lparr>rmin = 3500, rmax = 4000\<rparr>, glowIntensity_c = 0.9,
        color_c = ''#b835ff'', pulseFrequency = 1.2, flowPattern_c = ''crystalline''\<rparr>
     else if k = ''Brackish Lake'' then Some
       \<lparr>particleCount = 900, particleSize = \<lparr>rmin = 0.6, rmax = 1.9\<rparr>,
        particleLifespan = \<lparr>rmin = 3200, rmax = 4200\<rparr>, glowIntensity_c = 0.8,
        color_c = ''#2aacff'', pulseFrequency = 1.1, flowPattern_c = ''brackish-mix''\<rparr>
     else None)"

text \<open>\<open>String.prototype.toLowerCase\<close> on ASCII text and \<open>String.prototype.includes\<close>.\<close>

definition lower_char :: "char \<Rightarrow> char" where
  "lower_char c =
    (let n = (of_char c :: nat) in if 65 \<le> n \<and> n \<le> 90 then char_of (n + 32) else c)"

definition toLowerCase :: "string \<Rightarrow> string" where
  "toLowerCase s = map lower_char s"

definition str_includes :: "string \<Rightarrow> string \<Rightarrow> bool" where
  "str_includes s sub = sublist sub s"

definition getLakeConfigType :: "string \<Rightarrow> string" where
  "getLakeConfigType lakeType =
    (let type = toLowerCase lakeType in
     if str_includes type ''freshwater'' \<or> str_includes type ''tectonic'' \<or> str_includes type ''lentic''
       then ''Freshwater Lake''
     else if str_includes type ''high altitude'' \<or> str_includes type ''glacial'' \<or> str_includes type ''alpine''
       then ''High Altitude Lake''
     else if str_includes type ''urban'' \<or> str_includes type ''artificial'' \<or> str_includes type ''reservoir''
       then ''Urban Lake''
     else if str_includes type ''sacred'' \<or> str_includes type ''temple'' \<or> str_includes type ''holy''
       then ''Sacred Lake''
     else if str_includes type ''salt'' \<or> str_includes type ''saline''
       then ''Salt Lake''
     else if str_includes type ''brackish'' \<or> str_includes type ''lagoon'' \<or> str_includes type ''coastal''
       then ''Brackish Lake''
     else ''Freshwater Lake'')"

text \<open>\<open>LAKE_CONFIG[configType] || LAKE_CONFIG['Freshwater Lake']\<close>.\<close>

definition freshwater_config :: lake_config where
  "freshwater_config =
     \<lparr>particleCount = 1000, particleSize = \<lparr>rmin = 0.5, rmax = 2.0\<rparr>,
      particleLifespan = \<lparr>rmin = 3000, rmax = 4500\<rparr>, glowIntensity_c = 1.0,
      color_c = ''#4a90e2'', pulseFrequency = 1.0, flowPattern_c = ''gentle-ripple''\<rparr>"

definition config_for :: "string \<Rightarrow> lake_config" where
  "config_for lakeType =
    (case LAKE_CONFIG (getLakeConfigType lakeType) of
       Some c \<Rightarrow> c
     | None \<Rightarrow> freshwater_config)"

section \<open>components/Particle3D.js\<close>

text \<open>
  The class declares \<open>isExpired()\<close> as a method, and \<open>update\<close>, \<open>reset\<close> and \<open>init\<close> assign
  a boolean to \<open>this.isExpired\<close>. The value read from \<open>this.isExpired\<close> is therefore either
  the prototype's method (an object never reset or initialised) or an own boolean property.
\<close>

datatype isExpired_prop = Method | Flag bool

text \<open>
  \<open>this.velocity\<close> is a \<open>THREE.Vector3\<close> after the constructor and an object literal
  \<open>{x, y, z}\<close> after \<open>reset\<close> or \<open>init\<close>; only the former has \<open>multiplyScalar\<close>.
\<close>

datatype velocity_obj = Vector3 vec3 | PlainObject vec3

fun vel :: "velocity_obj \<Rightarrow> vec3" where
  "vel (Vector3 v) = v"
| "vel (PlainObject v) = v"

fun set_vel :: "velocity_obj \<Rightarrow> vec3 \<Rightarrow> velocity_obj" where
  "set_vel (Vector3 _) v = Vector3 v"
| "set_vel (PlainObject _) v = PlainObject v"

text \<open>
  The properties a particle object carries. \<open>None\<close> stands for \<open>undefined\<close> or \<open>null\<close>.
  The class never writes the last nine: \<open>lakeCenter\<close> is read by \<open>update\<close>;
  \<open>glowIntensity\<close>, \<open>sparkle\<close> and \<open>crystalline\<close> are set by
  \<open>ParticleSystem.customizeParticle\<close>, the frozen state by
  \<open>FlowController.applyFreezeBoundary\<close> and \<open>swirling\<close> (duration, time, strength,
  direction) by \<open>FlowController.applyTurbulentBoundary\<close>.
\<close>

record Particle3D =
  map_ref :: "map_handle option"
  position :: vec3
  velocity :: velocity_obj
  acceleration :: "vec3 option"
  lifespan :: real
  age :: real
  color :: "string option"
  opacity :: real
  size_p :: real
  flowPattern :: string
  phaseOffset :: real
  orbital :: "(real \<times> real \<times> real) option"
  p_x :: "real option"
  p_y :: "real option"
  p_z :: "real option"
  isExpired :: isExpired_prop
  lngLat :: "lnglat option"
  lakeType :: "string option"
  mass :: "real option"
  lakeCenter :: "lnglat option"
  glowIntensity :: "real option"
  sparkle :: "bool option"
  crystalline :: "bool option"
  isFrozen :: "bool option"
  frozenTime :: "real option"
  frozenDuration :: "real option"
  originalVelocity :: "(real \<times> real) option"
  swirling :: "(real \<times> real \<times> real \<times> real) option"

text \<open>
  The constructor. \<open>lakeCenter[0]\<close> throws when \<open>lakeCenter\<close> is \<open>undefined\<close>, as in
  \<open>new Particle3D()\<close>, and \<open>lakeType.toLowerCase()\<close> throws when \<open>lakeType\<close> is.
\<close>

definition Particle3D_new ::
  "map_handle option \<Rightarrow> lnglat option \<Rightarrow> string option \<Rightarrow> draws \<Rightarrow> js_error + Particle3D" where
  "Particle3D_new m lakeCenter_arg lakeType_arg rnd =
    (case lakeCenter_arg of
       None \<Rightarrow> Inl TypeError
     | Some c \<Rightarrow>
        (case lakeType_arg of
           None \<Rightarrow> Inl TypeError
         | Some t \<Rightarrow>
            (let configType = getLakeConfigType t;
                 config = config_for t
             in Inr
               \<lparr>map_ref = m,
                position = (fst c, snd c, 0),
                velocity = Vector3 ((rnd 0 - 0.5) * 0.1, (rnd 1 - 0.5) * 0.1, 0),
                acceleration = None,
                lifespan = rmin (particleLifespan config)
                  + rnd 2 * (rmax (particleLifespan config) - rmin (particleLifespan config)),
                age = 0,
                color = Some (color_c config),
                opacity = rnd 3 * 0.5 + 0.3,
                size_p = rmin (particleSize config)
                  + rnd 4 * (rmax (particleSize config) - rmin (particleSize config)),
                flowPattern = (if flowPattern_c config = [] then ''gentle-ripple''
                               else flowPattern_c config),
                phaseOffset = rnd 5 * pi * 2,
                orbital = (if configType = ''Sacred Lake''
                           then Some (rnd 6 * 0.05 + 0.02, rnd 7 * 0.01 + 0.005, rnd 8 * pi * 2)
                           else None),
                p_x = None, p_y = None, p_z = None,
                isExpired = Method,
                lngLat = None, lakeType = None, mass = None, lakeCenter = None,
                glowIntensity = None, sparkle = None, crystalline = None,
                isFrozen = None, frozenTime = None, frozenDuration = None,
                originalVelocity = None, swirling = None\<rparr>)))"

text \<open>
  The free identifier \<open>StateManager\<close> of \<open>Particle3D.js\<close>, which the file does not import:
  unbound, or bound to an object whose \<open>flowController\<close> is absent or present. A present
  flow controller is represented by how its \<open>applyFlowToParticle\<close> call ends (it reads the
  particle and does not write it).
\<close>

datatype StateManager_binding = Unbound | Bound "js_error option option"

text \<open>Truthiness of \<open>this.isExpired\<close>: a function is truthy.\<close>

fun truthy_isExpired :: "isExpired_prop \<Rightarrow> bool" where
  "truthy_isExpired Method = True"
| "truthy_isExpired (Flag b) = b"

text \<open>
  \<open>update(deltaTime, now, boundaries)\<close>. After the age check the method reads
  \<open>StateManager\<close>, calls the flow controller or moves the particle itself (the legacy
  fallback), applies gravity, calls \<open>this.velocity.multiplyScalar\<close> and then
  \<open>this._calculateOpacity\<close>, which no class member defines: the call throws, so the last
  line \<open>return true\<close> is never reached.
\<close>

definition legacy_move :: "Particle3D \<Rightarrow> real \<Rightarrow> Particle3D" where
  "legacy_move p deltaTime =
    (case (position p, vel (velocity p)) of
       ((px, py, pz), (vx, vy, vz)) \<Rightarrow>
         p\<lparr>position := (px + vx * deltaTime, py + vy * deltaTime, pz)\<rparr>)"

definition update_tail ::
  "StateManager_binding \<Rightarrow> Particle3D \<Rightarrow> real \<Rightarrow> Particle3D \<times> (js_error + bool)" where
  "update_tail sm p deltaTime =
    (case sm of
       Unbound \<Rightarrow> (p, Inl ReferenceError)
     | Bound flowController \<Rightarrow>
        (case (if flowController \<noteq> None \<and> lakeCenter p \<noteq> None
                  \<and> lakeType p \<noteq> None \<and> lakeType p \<noteq> Some []
               then (case flowController of
                       Some (Some e) \<Rightarrow> Inl e
                     | _ \<Rightarrow> Inr p)
               else Inr (legacy_move p deltaTime)) of
           Inl e \<Rightarrow> (p, Inl e)
         | Inr p1 \<Rightarrow>
            (let p2 = (case vel (velocity p1) of
                         (vx, vy, vz) \<Rightarrow>
                           p1\<lparr>velocity := set_vel (velocity p1) (vx, vy, vz - 0.01 * deltaTime)\<rparr>)
             in case velocity p2 of
                  PlainObject _ \<Rightarrow> (p2, Inl TypeError)
                | Vector3 (vx, vy, vz) \<Rightarrow>
                    (p2\<lparr>velocity := Vector3 (vx * 0.98, vy * 0.98, vz * 0.98)\<rparr>,
                     Inl TypeError))))"

definition update ::
  "StateManager_binding \<Rightarrow> Particle3D \<Rightarrow> real \<Rightarrow> Particle3D \<times> (js_error + bool)" where
  "update sm p deltaTime =
    (if truthy_isExpired (isExpired p) then (p, Inr False)
     else
       (let p1 = p\<lparr>age := age p + deltaTime\<rparr> in
        if age p1 > lifespan p1 then (p1\<lparr>isExpired := Flag True\<rparr>, Inr False)
        else update_tail sm p1 deltaTime))"

text \<open>A caller making the calls \<open>update(dt)\<close> one after the other on the same object.\<close>

fun updates :: "StateManager_binding \<Rightarrow> Particle3D \<Rightarrow> real list \<Rightarrow> Particle3D" where
  "updates sm p [] = p"
| "updates sm p (dt # dts) = updates sm (fst (update sm p dt)) dts"

text \<open>
  The call \<open>p.isExpired()\<close>: the prototype's method returns \<open>age >= lifespan\<close>; an own
  boolean property is not callable.
\<close>

definition call_isExpired :: "Particle3D \<Rightarrow> js_error + bool" where
  "call_isExpired p =
    (case isExpired p of
       Method \<Rightarrow> Inr (age p \<ge> lifespan p)
     | Flag _ \<Rightarrow> Inl TypeError)"

text \<open>
  \<open>reset()\<close> and \<open>init(map, lakeCenter, lakeType)\<close>. The class body declares each of them
  twice; the later declaration replaces the earlier one, so these are the ones that run.
\<close>

definition reset :: "Particle3D \<Rightarrow> Particle3D" where
  "reset p =
     p\<lparr>p_x := Some 0, p_y := Some 0, p_z := Some 0,
       velocity := PlainObject (0, 0, 0),
       acceleration := Some (0, 0, 0),
       opacity := 1, size_p := 1, color := None,
       age := 0, lifespan := 0, isExpired := Flag False,
       map_ref := None, lngLat := None, lakeType := None\<rparr>"

record type_config =
  tc_particleSize :: range
  tc_particleLifespan :: range
  tc_glowIntensity :: real

text \<open>\<open>getTypeConfig(lakeType)\<close> returns the same object for every lake type.\<close>

definition getTypeConfig :: "string option \<Rightarrow> type_config" where
  "getTypeConfig lakeType_arg =
     \<lparr>tc_particleSize = \<lparr>rmin = 0.5, rmax = 2.0\<rparr>,
      tc_particleLifespan = \<lparr>rmin = 3000, rmax = 4500\<rparr>,
      tc_glowIntensity = 1.0\<rparr>"

text \<open>
  \<open>init\<close> throws before its first assignment when \<open>lakeCenter\<close> is \<open>undefined\<close>
  (\<open>lakeCenter[0]\<close>) or \<open>map\<close> is \<open>undefined\<close> or \<open>null\<close> (\<open>map.project\<close>), and leaves the
  particle as it was. The draws are, in order: the two position offsets, mass, lifespan,
  size, opacity, speed, angle and the vertical velocity.
\<close>

definition init ::
  "map_handle option \<Rightarrow> lnglat option \<Rightarrow> string option \<Rightarrow> draws \<Rightarrow> Particle3D
     \<Rightarrow> js_error + Particle3D" where
  "init m lakeCenter_arg lakeType_arg rnd p =
    (case lakeCenter_arg of
       None \<Rightarrow> Inl TypeError
     | Some c \<Rightarrow>
        (case m of
           None \<Rightarrow> Inl TypeError
         | Some project \<Rightarrow>
            (let randomOffsetX = (rnd 0 - 0.5) * 0.01;
                 randomOffsetY = (rnd 1 - 0.5) * 0.01;
                 ll = (fst c + randomOffsetX, snd c + randomOffsetY);
                 point = project ll;
                 typeConfig = getTypeConfig lakeType_arg;
                 speed = 0.2 + rnd 6 * 0.3;
                 angle = rnd 7 * pi * 2
             in Inr (p\<lparr>p_x := Some (fst point), p_y := Some (snd point), p_z := Some 0,
                      lngLat := Some ll, map_ref := Some project, lakeType := lakeType_arg,
                      acceleration := Some (0, 0, 0),
                      mass := Some (rnd 2 * 0.5 + 0.5),
                      age := 0,
                      lifespan := rmin (tc_particleLifespan typeConfig)
                        + rnd 3 * (rmax (tc_particleLifespan typeConfig)
                                    - rmin (tc_particleLifespan typeConfig)),
                      size_p := rmin (tc_particleSize typeConfig)
                        + rnd 4 * (rmax (tc_particleSize typeConfig)
                                    - rmin (tc_particleSize typeConfig)),
                      opacity := rnd 5 * 0.5 + 0.3,
                      isExpired := Flag False,
                      velocity := PlainObject
                        (cos angle * speed, sin angle * speed, (rnd 8 - 0.5) * 0.1)\<rparr>))))"

section \<open>utils/ParticlePool.js\<close>

text \<open>
  The free list \<open>pool\<close> is a JavaScript array used as a stack: \<open>push\<close> appends at the end
  and \<open>pop\<close> removes the last element.
\<close>

record ParticlePool =
  pool :: "Particle3D list"
  maxSize :: int
  activeCount :: int
  totalCreated :: int
  totalReused :: int

text \<open>
  The constructor pre-allocates \<open>Math.min(size, 500)\<close> particles with \<open>new Particle3D()\<close>,
  a call without arguments.
\<close>

fun preallocate :: "nat \<Rightarrow> draws \<Rightarrow> Particle3D list \<Rightarrow> js_error + Particle3D list" where
  "preallocate 0 rnd acc = Inr acc"
| "preallocate (Suc n) rnd acc =
     (case Particle3D_new None None None rnd of
        Inl e \<Rightarrow> Inl e
      | Inr p \<Rightarrow> preallocate n rnd (acc @ [p]))"

definition ParticlePool_new :: "int \<Rightarrow> draws \<Rightarrow> js_error + ParticlePool" where
  "ParticlePool_new size_arg rnd =
    (case preallocate (nat (min size_arg 500)) rnd [] of
       Inl e \<Rightarrow> Inl e
     | Inr ps \<Rightarrow>
         Inr \<lparr>pool = ps, maxSize = size_arg, activeCount = 0,
              totalCreated = 0, totalReused = 0\<rparr>)"

text \<open>
  \<open>acquire(map, lakeCenter, lakeType)\<close>. The counter is incremented first; an exception
  of \<open>new Particle3D()\<close> (which throws before it draws a random number) or of \<open>init\<close>
  leaves the pool as mutated so far.
\<close>

definition count_acquired :: "ParticlePool \<Rightarrow> ParticlePool" where
  "count_acquired s =
    (if length (pool s) = 0 then s\<lparr>totalCreated := totalCreated s + 1\<rparr>
     else s\<lparr>totalReused := totalReused s + 1\<rparr>)"

definition acquire ::
  "ParticlePool \<Rightarrow> map_handle option \<Rightarrow> lnglat option \<Rightarrow> string option \<Rightarrow> draws
     \<Rightarrow> ParticlePool \<times> (js_error + Particle3D)" where
  "acquire s m lakeCenter_arg lakeType_arg rnd =
    (let s1 = s\<lparr>activeCount := activeCount s + 1\<rparr> in
     case (if pool s1 = [] then
             (case Particle3D_new None None None rnd of
                Inl e \<Rightarrow> (s1, Inl e)
              | Inr fresh \<Rightarrow> (s1, Inr fresh))
           else (s1\<lparr>pool := butlast (pool s1)\<rparr>, Inr (last (pool s1)))) of
       (s2, Inl e) \<Rightarrow> (s2, Inl e)
     | (s2, Inr particle) \<Rightarrow>
         (let s3 = count_acquired s2 in
          case init m lakeCenter_arg lakeType_arg rnd particle of
            Inl e \<Rightarrow> (s3, Inl e)
          | Inr initialised \<Rightarrow> (s3, Inr initialised)))"

definition release :: "ParticlePool \<Rightarrow> Particle3D \<Rightarrow> ParticlePool" where
  "release s particle =
    (let s1 = s\<lparr>activeCount := activeCount s - 1\<rparr>;
         particle1 = reset particle
     in if int (length (pool s1)) < maxSize s1
        then s1\<lparr>pool := pool s1 @ [particle1]\<rparr>
        else s1)"

text \<open>
  \<open>resize(newSize)\<close>. Assigning a negative number to \<open>pool.length\<close> throws a
  \<open>RangeError\<close>, after \<open>maxSize\<close> has been set.
\<close>

definition resize :: "ParticlePool \<Rightarrow> int \<Rightarrow> ParticlePool \<times> js_error option" where
  "resize s newSize =
    (let s1 = s\<lparr>maxSize := newSize\<rparr> in
     if int (length (pool s1)) > newSize
     then (if newSize < 0 then (s1, Some RangeError)
           else (s1\<lparr>pool := take (nat newSize) (pool s1)\<rparr>, None))
     else (s1, None))"

text \<open>A sequence of calls made on one pool by its users.\<close>

datatype pool_call =
    Acquire "map_handle option" "lnglat option" "string option" draws
  | Release Particle3D

fun pool_step :: "ParticlePool \<Rightarrow> pool_call \<Rightarrow> ParticlePool" where
  "pool_step s (Acquire m c t rnd) = fst (acquire s m c t rnd)"
| "pool_step s (Release p) = release s p"

text \<open>The states of the pool after each call of the sequence, in order.\<close>

fun pool_states :: "ParticlePool \<Rightarrow> pool_call list \<Rightarrow> ParticlePool list" where
  "pool_states s [] = []"
| "pool_states s (c # cs) = pool_step s c # pool_states (pool_step s c) cs"

text \<open>
  No call of the sequence releases more particles than are active: \<open>n\<close> is the number of
  active particles before the first call.
\<close>

fun releases_matched :: "int \<Rightarrow> pool_call list \<Rightarrow> bool" where
  "releases_matched n [] = True"
| "releases_matched n (Acquire m c t rnd # cs) = releases_matched (n + 1) cs"
| "releases_matched n (Release p # cs) = (0 < n \<and> releases_matched (n - 1) cs)"

section \<open>components/ParticleSystem.js\<close>

record lake_data =
  ld_center :: lnglat
  ld_type :: string

text \<open>
  The fields of a particle system that its update step reads or writes. The timing
  statistics (\<open>lastUpdateTime\<close>, \<open>avgUpdateTime\<close>), which are computed from
  \<open>performance.now()\<close>, and the renderer are left out.
\<close>

record ParticleSystem =
  ps_map :: "map_handle option"
  lakeData :: lake_data
  active :: bool
  particles :: "Particle3D list"
  particleLimit :: int
  frameCount :: int

definition ParticleSystem_new :: "map_handle option \<Rightarrow> lake_data \<Rightarrow> ParticleSystem" where
  "ParticleSystem_new m ld =
     \<lparr>ps_map = m, lakeData = ld, active = False, particles = [],
      particleLimit = (let n = particleCount (config_for (ld_type ld))
                       in if n = 0 then 1000 else n),
      frameCount = 0\<rparr>"

text \<open>
  What the module reaches through \<open>StateManager\<close>: the shared particle pool
  (\<open>StateManager.particlePool\<close>, possibly absent), and the binding of the identifier
  \<open>StateManager\<close> that \<open>Particle3D.update\<close> reads.
\<close>

record world =
  particlePool :: "ParticlePool option"
  particle_sm :: StateManager_binding

definition customizeParticle :: "ParticleSystem \<Rightarrow> Particle3D \<Rightarrow> Particle3D" where
  "customizeParticle s particle =
    (let configType = getLakeConfigType (ld_type (lakeData s)) in
     if configType = ''Sacred Lake'' then particle\<lparr>glowIntensity := Some 1.5\<rparr>
     else if configType = ''High Altitude Lake'' then particle\<lparr>sparkle := Some True\<rparr>
     else if configType = ''Salt Lake'' then particle\<lparr>crystalline := Some True\<rparr>
     else particle)"

text \<open>
  \<open>generateParticles(count)\<close>: the loop body runs \<open>count\<close> times; \<open>rnds i\<close> are the draws
  made for the \<open>i\<close>-th particle. An exception leaves the particles pushed so far in place.
\<close>

fun generateParticles ::
  "world \<Rightarrow> ParticleSystem \<Rightarrow> nat \<Rightarrow> (nat \<Rightarrow> draws)
     \<Rightarrow> world \<times> ParticleSystem \<times> js_error option" where
  "generateParticles w s 0 rnds = (w, s, None)"
| "generateParticles w s (Suc n) rnds =
    (case (case particlePool w of
             Some pl \<Rightarrow>
               (case acquire pl (ps_map s) (Some (ld_center (lakeData s)))
                       (Some (ld_type (lakeData s))) (rnds 0) of
                  (pl1, r) \<Rightarrow> (w\<lparr>particlePool := Some pl1\<rparr>, r))
           | None \<Rightarrow>
               (w, Particle3D_new (ps_map s) (Some (ld_center (lakeData s)))
                     (Some (ld_type (lakeData s))) (rnds 0))) of
       (w1, Inl e) \<Rightarrow> (w1, s, Some e)
     | (w1, Inr particle) \<Rightarrow>
         generateParticles w1
           (s\<lparr>particles := particles s @ [customizeParticle s particle]\<rparr>)
           n (\<lambda>i. rnds (Suc i)))"

definition activate ::
  "world \<Rightarrow> ParticleSystem \<Rightarrow> (nat \<Rightarrow> draws) \<Rightarrow> world \<times> ParticleSystem \<times> js_error option" where
  "activate w s rnds =
    (if active s then (w, s, None)
     else
       (let s1 = s\<lparr>active := True\<rparr> in
        if length (particles s1) = 0
        then generateParticles w s1 (nat (particleLimit s1)) rnds
        else (w, s1, None)))"

text \<open>
  The callback of \<open>this.particles.filter(...)\<close>: \<open>p.update(delta)\<close>, then
  \<open>!p.isExpired()\<close>. The first component is the array as the callback left it (the
  particles are mutated in place); the second is the exception that ended the loop, or
  the array \<open>filter\<close> returns.
\<close>

fun filter_particles ::
  "StateManager_binding \<Rightarrow> real \<Rightarrow> Particle3D list
     \<Rightarrow> Particle3D list \<times> (js_error + Particle3D list)" where
  "filter_particles sm delta [] = ([], Inr [])"
| "filter_particles sm delta (p # ps) =
    (case update sm p delta of
       (p1, Inl e) \<Rightarrow> (p1 # ps, Inl e)
     | (p1, Inr _) \<Rightarrow>
        (case call_isExpired p1 of
           Inl e \<Rightarrow> (p1 # ps, Inl e)
         | Inr expired \<Rightarrow>
            (case filter_particles sm delta ps of
               (ps1, Inl e) \<Rightarrow> (p1 # ps1, Inl e)
             | (ps1, Inr kept) \<Rightarrow>
                 (p1 # ps1, Inr (if expired then kept else p1 # kept)))))"

text \<open>
  \<open>update(delta)\<close> of the particle system. The third component is the exception the call
  throws, \<open>None\<close> when it completes.
\<close>

definition ParticleSystem_update ::
  "world \<Rightarrow> ParticleSystem \<Rightarrow> real \<Rightarrow> (nat \<Rightarrow> draws)
     \<Rightarrow> world \<times> ParticleSystem \<times> js_error option" where
  "ParticleSystem_update w s delta rnds =
    (if \<not> active s then (w, s, None)
     else
       (case filter_particles (particle_sm w) delta (particles s) of
          (mutated, Inl e) \<Rightarrow> (w, s\<lparr>particles := mutated\<rparr>, Some e)
        | (mutated, Inr kept) \<Rightarrow>
            (let s1 = s\<lparr>particles := kept\<rparr> in
             case (if int (length (particles s1)) < particleLimit s1
                   then generateParticles w s1
                          (nat (min 10 (particleLimit s1 - int (length (particles s1))))) rnds
                   else (w, s1, None)) of
               (w2, s2, Some e) \<Rightarrow> (w2, s2, Some e)
             | (w2, s2, None) \<Rightarrow> (w2, s2\<lparr>frameCount := frameCount s2 + 1\<rparr>, None))))"

section \<open>utils/SpatialGrid.js\<close>

text \<open>
  The grid reads three properties of a particle: \<open>position\<close> (only whether it is there),
  \<open>screenX\<close> and \<open>screenY\<close>. \<open>sprite_id\<close> stands for the identity of the object.
\<close>

record sprite =
  sprite_id :: nat
  has_position :: bool
  screenX :: "real option"
  screenY :: "real option"

text \<open>
  A cell key is the string \<open>`${cellX},${cellY}`\<close> of two integers; the model keeps the
  pair of integers. The \<open>Map\<close> from keys to arrays is an association list in insertion
  order, which is the order \<open>Map.prototype.forEach\<close> visits; \<open>visibleCells\<close> is a \<open>Set\<close>.
\<close>

type_synonym cell = "int \<times> int"


record SpatialGrid =
  cellSize :: real
  grid :: "(cell \<times> sprite list) list"
  visibleCells :: "cell set"
  metrics_particles :: int
  metrics_activeCells :: int
  metrics_culledParticles :: int


definition key :: "SpatialGrid \<Rightarrow> real \<Rightarrow> real \<Rightarrow> cell" where
  "key g x y = (\<lfloor>x / cellSize g\<rfloor>, \<lfloor>y / cellSize g\<rfloor>)"












section \<open>config/constants.js and utils/QualityGovernor.js\<close>

text \<open>
  The quality tiers are the five keys of \<open>QUALITY_PRESETS\<close>. \<open>currentLevel\<close> and
  \<open>targetLevel\<close> only ever hold such a key (the constructor starts at \<open>'high'\<close> and
  \<open>setQualityLevel\<close> rejects any other string), so they are values of \<open>level\<close>.
\<close>

datatype level = Ultra | High | Medium | Low | Minimal

record quality_settings =
  particleMultiplier :: real
  maxParticles :: real
  renderScale :: real
  effectComplexity :: real
  animationComplexity :: real
  glowEffects :: bool
  postProcessing :: bool
  physicsIterations :: real
  renderDistance :: real

fun QUALITY_PRESETS :: "level \<Rightarrow> quality_settings" where
  "QUALITY_PRESETS Minimal =
     \<lparr>particleMultiplier = 0.2, maxParticles = 500, renderScale = 0.5,
      effectComplexity = 0.0, animationComplexity = 0.0, glowEffects = False,
      postProcessing = False, physicsIterations = 1, renderDistance = 0.4\<rparr>"
| "QUALITY_PRESETS Low =
     \<lparr>particleMultiplier = 0.4, maxParticles = 1000, renderScale = 0.6,
      effectComplexity = 0.3, animationComplexity = 0.3, glowEffects = True,
      postProcessing = False, physicsIterations = 2, renderDistance = 0.6\<rparr>"
| "QUALITY_PRESETS Medium =
     \<lparr>particleMultiplier = 0.7, maxParticles = 2000, renderScale = 0.8,
      effectComplexity = 0.6, animationComplexity = 0.6, glowEffects = True,
      postProcessing = True, physicsIterations = 3, renderDistance = 0.8\<rparr>"
| "QUALITY_PRESETS High =
     \<lparr>particleMultiplier = 1.0, maxParticles = 4000, renderScale = 1.0,
      effectComplexity = 0.8, animationComplexity = 0.8, glowEffects = True,
      postProcessing = True, physicsIterations = 4, renderDistance = 1.0\<rparr>"
| "QUALITY_PRESETS Ultra =
     \<lparr>particleMultiplier = 1.5, maxParticles = 8000, renderScale = 1.2,
      effectComplexity = 1.0, animationComplexity = 1.0, glowEffects = True,
      postProcessing = True, physicsIterations = 5, renderDistance = 1.2\<rparr>"

text \<open>The lookup \<open>QUALITY_PRESETS[level]\<close> of a tier name.\<close>

definition level_of_name :: "string \<Rightarrow> level option" where
  "level_of_name n =
    (if n = ''minimal'' then Some Minimal
     else if n = ''low'' then Some Low
     else if n = ''medium'' then Some Medium
     else if n = ''high'' then Some High
     else if n = ''ultra'' then Some Ultra
     else None)"

text \<open>What a subscriber's callback receives: \<open>{level, type, settings}\<close>.\<close>

record notification =
  n_level :: level
  n_type :: string
  n_settings :: quality_settings

text \<open>
  The governor, with the notifications delivered to subscribers so far (oldest first) and
  the global \<open>PERFORMANCE_THRESHOLDS.maxActiveParticles\<close> that \<open>applySettings\<close> writes. The
  other effects of \<open>applySettings\<close> (fields of the particle systems, the canvas scale) are
  outside the model.
\<close>

record QualityGovernor =
  currentLevel :: level
  targetLevel :: "level option"
  transitionProgress :: real
  transitionSpeed :: real
  delivered :: "notification list"
  maxActiveParticles :: int

definition notifySubscribers ::
  "QualityGovernor \<Rightarrow> string \<Rightarrow> quality_settings option \<Rightarrow> QualityGovernor" where
  "notifySubscribers g type settings =
    (let currentSettings = (case settings of
                              Some st \<Rightarrow> st
                            | None \<Rightarrow> QUALITY_PRESETS (currentLevel g))
     in g\<lparr>delivered := delivered g
            @ [\<lparr>n_level = currentLevel g, n_type = type, n_settings = currentSettings\<rparr>]\<rparr>)"

definition applySettings :: "QualityGovernor \<Rightarrow> quality_settings \<Rightarrow> QualityGovernor" where
  "applySettings g settings =
     notifySubscribers (g\<lparr>maxActiveParticles := \<lfloor>maxParticles settings\<rfloor>\<rparr>)
       ''intermediate'' (Some settings)"

text \<open>
  \<open>updateIntermediateSettings\<close>: numeric fields are interpolated by the progress, the
  others switch to the target's value once the progress is above 0.5.
\<close>

definition interpolate :: "quality_settings \<Rightarrow> quality_settings \<Rightarrow> real \<Rightarrow> quality_settings" where
  "interpolate c t progress =
     \<lparr>particleMultiplier = particleMultiplier c
        + (particleMultiplier t - particleMultiplier c) * progress,
      maxParticles = maxParticles c + (maxParticles t - maxParticles c) * progress,
      renderScale = renderScale c + (renderScale t - renderScale c) * progress,
      effectComplexity = effectComplexity c
        + (effectComplexity t - effectComplexity c) * progress,
      animationComplexity = animationComplexity c
        + (animationComplexity t - animationComplexity c) * progress,
      glowEffects = (if progress > 0.5 then glowEffects t else glowEffects c),
      postProcessing = (if progress > 0.5 then postProcessing t else postProcessing c),
      physicsIterations = physicsIterations c
        + (physicsIterations t - physicsIterations c) * progress,
      renderDistance = renderDistance c + (renderDistance t - renderDistance c) * progress\<rparr>"

definition updateIntermediateSettings :: "QualityGovernor \<Rightarrow> QualityGovernor" where
  "updateIntermediateSettings g =
    (case targetLevel g of
       None \<Rightarrow> g
     | Some target \<Rightarrow>
         applySettings g
           (interpolate (QUALITY_PRESETS (currentLevel g)) (QUALITY_PRESETS target)
              (transitionProgress g)))"

text \<open>One run of the body of \<open>transitionLoop\<close>, which every animation frame calls.\<close>

definition transitionLoop :: "QualityGovernor \<Rightarrow> QualityGovernor" where
  "transitionLoop g =
    (case targetLevel g of
       None \<Rightarrow> g
     | Some target \<Rightarrow>
        if transitionProgress g < 1.0 then
          (let g1 = g\<lparr>transitionProgress := transitionProgress g + transitionSpeed g\<rparr> in
           if transitionProgress g1 \<ge> 1.0
           then notifySubscribers
                  (g1\<lparr>transitionProgress := 1.0, currentLevel := target, targetLevel := None\<rparr>)
                  ''complete'' None
           else updateIntermediateSettings g1)
        else g)"

definition setQualityLevel :: "QualityGovernor \<Rightarrow> string \<Rightarrow> QualityGovernor \<times> bool" where
  "setQualityLevel g name =
    (case level_of_name name of
       None \<Rightarrow> (g, False)
     | Some lv \<Rightarrow>
        if lv = currentLevel g then (g, True)
        else (g\<lparr>targetLevel := Some lv, transitionProgress := 0.0\<rparr>, True))"

text \<open>
  The constructor, given the tier name that \<open>detectDeviceTier()\<close> returns for the device.
\<close>

definition QualityGovernor_new :: "string \<Rightarrow> QualityGovernor" where
  "QualityGovernor_new deviceTier =
     fst (setQualityLevel
       \<lparr>currentLevel = High, targetLevel = None, transitionProgress = 1.0,
        transitionSpeed = 0.05, delivered = [], maxActiveParticles = 2000\<rparr> deviceTier)"

text \<open>\<open>n\<close> animation frames.\<close>

fun frames :: "nat \<Rightarrow> QualityGovernor \<Rightarrow> QualityGovernor" where
  "frames 0 g = g"
| "frames (Suc n) g = frames n (transitionLoop g)"

text \<open>
  A finished transition to \<open>B\<close>: the state, and the last notification delivered.
\<close>

definition completed :: "level \<Rightarrow> QualityGovernor \<Rightarrow> bool" where
  "completed B g = (currentLevel g = B \<and> targetLevel g = None \<and> transitionProgress g = 1
     \<and> delivered g \<noteq> []
     \<and> last (delivered g) = \<lparr>n_level = B, n_type = ''complete'', n_settings = QUALITY_PRESETS B\<rparr>)"

section \<open>utils/ParticleOptimizer.js: adaptToPerformance\<close>

text \<open>
  The optimizer's two switches and the fields of the global \<open>PERFORMANCE_THRESHOLDS\<close>
  that \<open>adaptToPerformance\<close> reads or writes.
\<close>

record optimizer =
  frustumCulling :: bool
  dynamicLOD :: bool
  targetFPS :: real
  lowFPS :: real
  cullingDistance :: real

definition ParticleOptimizer_new :: optimizer where
  "ParticleOptimizer_new =
     \<lparr>frustumCulling = True, dynamicLOD = True, targetFPS = 60, lowFPS = 30,
      cullingDistance = 5000\<rparr>"

definition adaptToPerformance :: "optimizer \<Rightarrow> real \<Rightarrow> optimizer" where
  "adaptToPerformance s fps =
    (if fps < lowFPS s then
       (let s1 = s\<lparr>frustumCulling := True, dynamicLOD := True\<rparr>;
            reducedDistance = cullingDistance s1 * 0.8
        in s1\<lparr>cullingDistance := reducedDistance\<rparr>)
     else if fps > targetFPS s * 0.9 then
       (if cullingDistance s < 5000
        then (let increasedDistance = min 5000 (cullingDistance s * 1.1)
              in s\<lparr>cullingDistance := increasedDistance\<rparr>)
        else s)
     else s)"

text \<open>A sequence of calls, one per sampled frame rate.\<close>

fun adapt_all :: "optimizer \<Rightarrow> real list \<Rightarrow> optimizer" where
  "adapt_all s [] = s"
| "adapt_all s (fps # rest) = adapt_all (adaptToPerformance s fps) rest"

section \<open>Sample objects\<close>

text \<open>
  Concrete objects for the examples below: a map whose projection scales by 100, a random
  source that always draws 0, the particle \<open>new Particle3D(map, [0, 0], 'Freshwater Lake')\<close>
  builds with these draws, and the particle \<open>init(map, [0, 0], 'Sacred Lake')\<close> leaves
  after a \<open>reset\<close> of the former.
\<close>

definition flat_map :: map_handle where "flat_map ll = (fst ll * 100, snd ll * 100)"
definition zero_draws :: draws where "zero_draws i = 0"

definition constructed_particle :: Particle3D where
  "constructed_particle =
     \<lparr>map_ref = Some flat_map, position = (0, 0, 0),
      velocity = Vector3 (- 0.05, - 0.05, 0), acceleration = None,
      lifespan = 3000, age = 0, color = Some ''#4a90e2'', opacity = 0.3, size_p = 0.5,
      flowPattern = ''gentle-ripple'', phaseOffset = 0, orbital = None,
      p_x = None, p_y = None, p_z = None, isExpired = Method,
      lngLat = None, lakeType = None, mass = None, lakeCenter = None,
      glowIntensity = None, sparkle = None, crystalline = None,
      isFrozen = None, frozenTime = None, frozenDuration = None, originalVelocity = None, swirling = None\<rparr>"

definition pooled_particle :: Particle3D where
  "pooled_particle =
     \<lparr>map_ref = Some flat_map, position = (0, 0, 0),
      velocity = PlainObject (0.2, 0, - 0.05), acceleration = Some (0, 0, 0),
      lifespan = 3000, age = 0, color = None, opacity = 0.3, size_p = 0.5,
      flowPattern = ''gentle-ripple'', phaseOffset = 0, orbital = None,
      p_x = Some (- 0.5), p_y = Some (- 0.5), p_z = Some 0, isExpired = Flag False,
      lngLat = Some (- 0.005, - 0.005), lakeType = Some ''Sacred Lake'', mass = Some 0.5,
      lakeCenter = None,
      glowIntensity = None, sparkle = None, crystalline = None,
      isFrozen = None, frozenTime = None, frozenDuration = None, originalVelocity = None, swirling = None\<rparr>"

definition empty_pool :: ParticlePool where
  "empty_pool = \<lparr>pool = [], maxSize = 0, activeCount = 0, totalCreated = 0, totalReused = 0\<rparr>"

definition sample_pool :: ParticlePool where
  "sample_pool =
     release (fst (acquire (fst (resize empty_pool 2000)) None None None zero_draws))
       constructed_particle"

definition sacred_lake :: lake_data where
  "sacred_lake = \<lparr>ld_center = (0, 0), ld_type = ''Sacred Lake''\<rparr>"

definition sample_system :: ParticleSystem where
  "sample_system =
     (ParticleSystem_new (Some flat_map) sacred_lake)
       \<lparr>active := True,
        particles := [customizeParticle (ParticleSystem_new (Some flat_map) sacred_lake)
                        pooled_particle]\<rparr>"

definition salt_lake :: lake_data where
  "salt_lake = \<lparr>ld_center = (0, 0), ld_type = ''Salt Lake''\<rparr>"

definition overfull_system :: ParticleSystem where
  "overfull_system =
     (ParticleSystem_new (Some flat_map) salt_lake)
       \<lparr>active := True, particles := replicate 801 constructed_particle\<rparr>"

definition small_system :: ParticleSystem where
  "small_system =
     (ParticleSystem_new (Some flat_map) salt_lake)
       \<lparr>active := True, particles := [constructed_particle]\<rparr>"

definition no_pool :: world where
  "no_pool = \<lparr>particlePool = None, particle_sm = Unbound\<rparr>"







section \<open>Particle lifetime\<close>

lemma glt_fresh: "getLakeConfigType ''Freshwater Lake'' = ''Freshwater Lake''"
  by code_simp

lemma constructed_particle_new:
  "Particle3D_new (Some flat_map) (Some (0, 0)) (Some ''Freshwater Lake'') zero_draws
     = Inr constructed_particle"
  by (simp add: Particle3D_new_def config_for_def glt_fresh LAKE_CONFIG_def zero_draws_def
      constructed_particle_def)

lemma pooled_particle_init:
  "init (Some flat_map) (Some (0, 0)) (Some ''Sacred Lake'') zero_draws (reset constructed_particle)
     = Inr pooled_particle"
  by (simp add: init_def reset_def getTypeConfig_def zero_draws_def constructed_particle_def
      pooled_particle_def flat_map_def Let_def)


lemma update_age_live:
  "isExpired p = Flag False \<Longrightarrow> age (fst (update sm p dt)) = age p + dt"
  by (auto simp: update_def update_tail_def legacy_move_def Let_def
      split: StateManager_binding.splits option.splits velocity_obj.splits prod.splits)

lemma update_lifespan_same: "lifespan (fst (update sm p dt)) = lifespan p"
  by (auto simp: update_def update_tail_def legacy_move_def Let_def
      split: StateManager_binding.splits option.splits velocity_obj.splits prod.splits)

lemma update_flag_live:
  "isExpired p = Flag False \<Longrightarrow>
     isExpired (fst (update sm p dt)) = Flag (lifespan p < age p + dt)"
  by (auto simp: update_def update_tail_def legacy_move_def Let_def
      split: StateManager_binding.splits option.splits velocity_obj.splits prod.splits)

lemma update_terminal: "truthy_isExpired (isExpired p) \<Longrightarrow> update sm p dt = (p, Inr False)"
  by (simp add: update_def)

lemma updates_terminal: "truthy_isExpired (isExpired p) \<Longrightarrow> updates sm p dts = p"
  by (induction dts) (simp_all add: update_terminal)

lemma sum_list_pos: "\<forall>dt\<in>set dts. 0 < dt \<Longrightarrow> 0 \<le> sum_list dts" for dts :: "real list"
  by (induction dts) auto

lemma updates_live:
  assumes "isExpired p = Flag False" and "age p \<le> lifespan p" and "\<forall>dt\<in>set dts. 0 < dt"
  shows "isExpired (updates sm p dts) = Flag (lifespan p < age p + sum_list dts)
       \<and> lifespan (updates sm p dts) = lifespan p
       \<and> age (updates sm p dts) \<le> age p + sum_list dts
       \<and> (if lifespan p < age p + sum_list dts then lifespan p < age (updates sm p dts)
           else age (updates sm p dts) = age p + sum_list dts)"
  using assms
proof (induction dts arbitrary: p)
  case Nil
  then show ?case by simp
next
  case (Cons dt dts)
  let ?q = "fst (update sm p dt)"
  have dt: "0 < dt" and rest: "\<forall>d\<in>set dts. 0 < d" using Cons.prems(3) by auto
  have q_age: "age ?q = age p + dt" using Cons.prems(1) by (rule update_age_live)
  have q_life: "lifespan ?q = lifespan p" by (rule update_lifespan_same)
  have q_flag: "isExpired ?q = Flag (lifespan p < age p + dt)"
    using Cons.prems(1) by (rule update_flag_live)
  have nonneg: "0 \<le> sum_list dts" using rest by (rule sum_list_pos)
  show ?case
  proof (cases "lifespan p < age p + dt")
    case True
    then have "truthy_isExpired (isExpired ?q)" using q_flag by simp
    then have "updates sm ?q dts = ?q" by (rule updates_terminal)
    then show ?thesis using True q_age q_life q_flag nonneg by simp
  next
    case False
    then have "isExpired ?q = Flag False" and "age ?q \<le> lifespan ?q"
      using q_flag q_age q_life by simp_all
    from Cons.IH [OF this rest]
    have ih: "isExpired (updates sm ?q dts) = Flag (lifespan p < age p + dt + sum_list dts)"
      "lifespan (updates sm ?q dts) = lifespan p"
      "age (updates sm ?q dts) \<le> age p + dt + sum_list dts"
      "(if lifespan p < age p + dt + sum_list dts then lifespan p < age (updates sm ?q dts)
        else age (updates sm ?q dts) = age p + dt + sum_list dts)"
      unfolding q_age q_life by blast+
    show ?thesis
      using ih by (simp add: add.assoc)
  qed
qed

text \<open>
  Claim C1, as the code has it. Take a particle whose \<open>isExpired\<close> property is the boolean
  \<open>false\<close> (as \<open>reset\<close> and \<open>init\<close> leave it) and whose age has not passed its lifespan,
  and any sequence of \<open>update(dt)\<close> calls with \<open>dt > 0\<close>. After the calls the particle is
  flagged expired exactly when the accumulated age exceeds the lifespan. While it does not,
  the age is the sum of the steps and one more call adds its step to the age, also when
  the age equals the lifespan. Once flagged, the age is above the lifespan and every
  further call returns \<open>false\<close> and changes nothing.
\<close>

theorem particle_update_lifespan:
  assumes "isExpired p = Flag False" and "age p \<le> lifespan p" and "\<forall>dt\<in>set dts. 0 < dt"
  shows "isExpired (updates sm p dts) = Flag (lifespan p < age p + sum_list dts)
       \<and> (age p + sum_list dts \<le> lifespan p \<longrightarrow>
            age (updates sm p dts) = age p + sum_list dts
            \<and> (\<forall>dt. age (fst (update sm (updates sm p dts) dt)) = age p + sum_list dts + dt))
       \<and> (lifespan p < age p + sum_list dts \<longrightarrow>
            lifespan p < age (updates sm p dts)
            \<and> (\<forall>dt. update sm (updates sm p dts) dt = (updates sm p dts, Inr False)))"
proof -
  note live = updates_live [OF assms, of sm]
  have a: "isExpired (updates sm p dts) = Flag (lifespan p < age p + sum_list dts)"
    using live by simp
  have b: "age (updates sm p dts) = age p + sum_list dts
         \<and> (\<forall>dt. age (fst (update sm (updates sm p dts) dt)) = age p + sum_list dts + dt)"
    if "age p + sum_list dts \<le> lifespan p"
  proof -
    have "isExpired (updates sm p dts) = Flag False" using a that by simp
    moreover have "age (updates sm p dts) = age p + sum_list dts" using live that by simp
    ultimately show ?thesis by (simp add: update_age_live)
  qed
  have c: "lifespan p < age (updates sm p dts)
         \<and> (\<forall>dt. update sm (updates sm p dts) dt = (updates sm p dts, Inr False))"
    if "lifespan p < age p + sum_list dts"
  proof -
    have "truthy_isExpired (isExpired (updates sm p dts))" using a that by simp
    then show ?thesis using live that by (simp add: update_terminal)
  qed
  show ?thesis using a b c by blast
qed

text \<open>
  The pooled sample particle (lifespan 3000) stepped by 1000: alive with age 3000 after
  three calls, expired by the fourth, and unchanged by a call after that.
\<close>

theorem particle_update_lifespan_witness:
  "isExpired pooled_particle = Flag False \<and> age pooled_particle \<le> lifespan pooled_particle
   \<and> isExpired (updates Unbound pooled_particle [1000, 1000, 1000]) = Flag False
   \<and> age (updates Unbound pooled_particle [1000, 1000, 1000]) = 3000
   \<and> isExpired (updates Unbound pooled_particle [1000, 1000, 1000, 1000]) = Flag True
   \<and> update Unbound (updates Unbound pooled_particle [1000, 1000, 1000, 1000]) 16
       = (updates Unbound pooled_particle [1000, 1000, 1000, 1000], Inr False)"
proof -
  have h: "isExpired pooled_particle = Flag False" "age pooled_particle \<le> lifespan pooled_particle"
    by (simp_all add: pooled_particle_def)
  have d3: "\<forall>dt\<in>set [1000, 1000, 1000 :: real]. 0 < dt" by simp
  have d4: "\<forall>dt\<in>set [1000, 1000, 1000, 1000 :: real]. 0 < dt" by simp
  have l: "lifespan pooled_particle = 3000" "age pooled_particle = 0"
    by (simp_all add: pooled_particle_def)
  show ?thesis
    using h particle_update_lifespan [OF h d3, of Unbound]
      particle_update_lifespan [OF h d4, of Unbound]
    by (simp add: l)
qed

text \<open>
  Claim C1 as stated fails where the age equals the lifespan: after three steps of 1000
  the sample particle has \<open>age >= lifespan\<close>, and the next call still advances its age.
\<close>

theorem expired_at_lifespan_counterexample:
  "lifespan (updates Unbound pooled_particle [1000, 1000, 1000])
      \<le> age (updates Unbound pooled_particle [1000, 1000, 1000])
   \<and> age (updates Unbound pooled_particle [1000, 1000, 1000]) = 3000
   \<and> age (fst (update Unbound (updates Unbound pooled_particle [1000, 1000, 1000]) 1000)) = 4000"
  by (simp add: pooled_particle_def update_def update_tail_def legacy_move_def)

section \<open>The per-frame update of a particle system\<close>

lemma empty_pool_new: "ParticlePool_new 0 rnd = Inr empty_pool"
  by (simp add: ParticlePool_new_def empty_pool_def)

lemma new_without_arguments: "Particle3D_new None None None rnd = Inl TypeError"
  by (simp add: Particle3D_new_def)

text \<open>
  \<open>new ParticlePool(size)\<close> pre-allocates with \<open>new Particle3D()\<close>, which throws: only a
  pool of size 0 or less can be constructed, and it starts with no active particle.
\<close>

lemma new_pool_throws: "0 < n \<Longrightarrow> ParticlePool_new n rnd = Inl TypeError"
  by (cases "nat (min n 500)") (auto simp: ParticlePool_new_def new_without_arguments)

lemma new_pool_counts:
  "ParticlePool_new n rnd = Inr s \<Longrightarrow> activeCount s = 0 \<and> maxSize s = n \<and> pool s = []"
proof (cases "0 < n")
  case True
  assume "ParticlePool_new n rnd = Inr s"
  then show ?thesis using new_pool_throws [OF True, of rnd] by simp
next
  case False
  assume "ParticlePool_new n rnd = Inr s"
  then show ?thesis using False by (auto simp: ParticlePool_new_def)
qed

lemma sample_pool_eq:
  "sample_pool = \<lparr>pool = [reset constructed_particle], maxSize = 2000, activeCount = 0,
      totalCreated = 0, totalReused = 0\<rparr>"
  by (simp add: sample_pool_def release_def acquire_def resize_def empty_pool_def
      new_without_arguments Let_def)

lemma acquire_sample:
  "acquire sample_pool (Some flat_map) (Some (0, 0)) (Some ''Sacred Lake'') zero_draws
     = (\<lparr>pool = [], maxSize = 2000, activeCount = 1, totalCreated = 1, totalReused = 0\<rparr>,
        Inr pooled_particle)"
  by (simp add: sample_pool_eq acquire_def count_acquired_def pooled_particle_init Let_def)

lemma update_keeps_flag:
  "isExpired p = Flag b \<Longrightarrow> \<exists>b'. isExpired (fst (update sm p dt)) = Flag b'"
  by (auto simp: update_def update_tail_def legacy_move_def Let_def
      split: StateManager_binding.splits option.splits velocity_obj.splits prod.splits)

lemma filter_particles_flag_throws:
  assumes "isExpired p = Flag b"
  shows "\<exists>e. snd (filter_particles sm delta (p # ps)) = Inl e"
proof -
  obtain p1 r where u: "update sm p delta = (p1, r)" by (cases "update sm p delta")
  from update_keeps_flag [OF assms, of sm delta] u obtain b' where "isExpired p1 = Flag b'"
    by auto
  then have "call_isExpired p1 = Inl TypeError" by (simp add: call_isExpired_def)
  then show ?thesis using u by (cases r) simp_all
qed

lemma update_throws_on_flagged_head:
  assumes "active s" and "particles s = p # ps" and "isExpired p = Flag b"
  shows "snd (snd (ParticleSystem_update w s delta rnds)) \<noteq> None"
proof -
  from filter_particles_flag_throws [OF assms(3)]
  obtain e where "snd (filter_particles (particle_sm w) delta (p # ps)) = Inl e" by blast
  then obtain m where "filter_particles (particle_sm w) delta (p # ps) = (m, Inl e)"
    by (cases "filter_particles (particle_sm w) delta (p # ps)") auto
  then show ?thesis using assms(1,2) by (simp add: ParticleSystem_update_def)
qed

text \<open>
  Claim C2 fails on the code. A particle returned by \<open>ParticlePool.acquire\<close> has been
  through \<open>init\<close>, which stores the boolean \<open>false\<close> in \<open>isExpired\<close>; the filter callback of
  \<open>ParticleSystem.update\<close> then calls \<open>p.isExpired()\<close>. For the active sample system, whose
  one particle is the one \<open>acquire\<close> returns from the sample pool, the update throws
  whatever the world, the time step and the draws are, and it throws a \<open>TypeError\<close> in a
  world without a pool where \<open>StateManager\<close> is bound.
\<close>

theorem pooled_particles_update_throws:
  "snd (acquire sample_pool (Some flat_map) (Some (0, 0)) (Some ''Sacred Lake'') zero_draws)
     = Inr pooled_particle
   \<and> active sample_system
   \<and> particles sample_system = [pooled_particle\<lparr>glowIntensity := Some 1.5\<rparr>]
   \<and> snd (snd (ParticleSystem_update w sample_system delta rnds)) \<noteq> None
   \<and> snd (snd (ParticleSystem_update \<lparr>particlePool = None, particle_sm = Bound None\<rparr>
                  sample_system 16 rnds)) = Some TypeError"
proof -
  have g: "getLakeConfigType ''Sacred Lake'' = ''Sacred Lake''" by code_simp
  have ps: "particles sample_system = [pooled_particle\<lparr>glowIntensity := Some 1.5\<rparr>]"
    by (simp add: sample_system_def customizeParticle_def ParticleSystem_new_def
        sacred_lake_def g)
  have act: "active sample_system" by (simp add: sample_system_def)
  have flag: "isExpired (pooled_particle\<lparr>glowIntensity := Some 1.5\<rparr>) = Flag False"
    by (simp add: pooled_particle_def)
  have thrown: "snd (snd (ParticleSystem_update w sample_system delta rnds)) \<noteq> None"
    using act ps flag by (rule update_throws_on_flagged_head)
  have concrete:
    "snd (snd (ParticleSystem_update \<lparr>particlePool = None, particle_sm = Bound None\<rparr>
                  sample_system 16 rnds)) = Some TypeError"
    by (simp add: ParticleSystem_update_def act ps update_def update_tail_def legacy_move_def
        pooled_particle_def)
  show ?thesis using acquire_sample ps act thrown concrete by simp
qed

section \<open>Initialisation of a pooled particle\<close>

lemma glt_sacred: "getLakeConfigType ''Sacred Lake'' = ''Sacred Lake''"
  by code_simp

lemma glt_salt: "getLakeConfigType ''Salt Lake'' = ''Salt Lake''"
  by code_simp

text \<open>
  Claim C3 fails on the code. \<open>init\<close> draws lifespan and size from the ranges of
  \<open>getTypeConfig\<close>, which are the same for every lake type: the lifespan is
  \<open>3000 + r * 1500\<close> and the size \<open>0.5 + r * 1.5\<close> whatever the type, and the opacity
  is \<open>r * 0.5 + 0.3\<close>. For a Sacred Lake the range of \<open>LAKE_CONFIG\<close> is [4000, 5000];
  with the draw 0 the particle gets the lifespan 3000.
\<close>

theorem init_ignores_lake_type:
  "map_sum id lifespan (init (Some m) (Some c) t rnd p) = Inr (3000 + rnd 3 * 1500)
   \<and> map_sum id size_p (init (Some m) (Some c) t rnd p) = Inr (0.5 + rnd 4 * 1.5)
   \<and> map_sum id opacity (init (Some m) (Some c) t rnd p) = Inr (rnd 5 * 0.5 + 0.3)
   \<and> getLakeConfigType ''Sacred Lake'' = ''Sacred Lake''
   \<and> particleLifespan (config_for ''Sacred Lake'') = \<lparr>rmin = 4000, rmax = 5000\<rparr>
   \<and> map_sum id lifespan
        (init (Some flat_map) (Some (0, 0)) (Some ''Sacred Lake'') zero_draws
           (reset constructed_particle)) = Inr 3000"
  by (simp add: init_def getTypeConfig_def Let_def glt_sacred config_for_def LAKE_CONFIG_def
      zero_draws_def)

lemma reset_init_fields:
  "map_sum id (\<lambda>q. (size_p q, opacity q, lifespan q, age q, isExpired q, velocity q, mass q))
     (init m c t rnd (reset p1))
   = map_sum id (\<lambda>q. (size_p q, opacity q, lifespan q, age q, isExpired q, velocity q, mass q))
     (init m c t rnd (reset p2))"
  by (simp add: init_def reset_def Let_def split: option.splits)

text \<open>
  Claim C4 fails on the code. Neither \<open>reset\<close> nor \<open>init\<close> writes the behaviour flags, so
  after \<open>reset\<close> and \<open>init\<close> they are what they were before: a particle that a Salt Lake
  system has customised is still \<open>crystalline\<close> after being reset and initialised for a
  Freshwater Lake, and one that was not is not, with the same arguments and draws.
\<close>

theorem reset_init_keeps_flags:
  "map_sum id (\<lambda>q. (crystalline q, sparkle q, glowIntensity q, isFrozen q, frozenTime q,
                     frozenDuration q, originalVelocity q, swirling q))
     (init (Some m) (Some c) t rnd (reset p))
   = Inr (crystalline p, sparkle p, glowIntensity p, isFrozen p, frozenTime p,
          frozenDuration p, originalVelocity p, swirling p)
   \<and> crystalline (customizeParticle (ParticleSystem_new (Some flat_map) salt_lake)
                    pooled_particle) = Some True
   \<and> map_sum id crystalline
        (init (Some flat_map) (Some (0, 0)) (Some ''Freshwater Lake'') zero_draws
           (reset (customizeParticle (ParticleSystem_new (Some flat_map) salt_lake)
                     pooled_particle))) = Inr (Some True)
   \<and> map_sum id crystalline
        (init (Some flat_map) (Some (0, 0)) (Some ''Freshwater Lake'') zero_draws
           (reset pooled_particle)) = Inr None"
proof -
  have c: "customizeParticle (ParticleSystem_new (Some flat_map) salt_lake) pooled_particle
        = pooled_particle\<lparr>crystalline := Some True\<rparr>"
    by (simp add: customizeParticle_def ParticleSystem_new_def salt_lake_def glt_salt)
  show ?thesis
    unfolding c by (simp add: init_def reset_def Let_def pooled_particle_def)
qed

section \<open>The particle pool\<close>

lemma acquire_activeCount: "activeCount (fst (acquire s m c t rnd)) = activeCount s + 1"
  by (auto simp: acquire_def count_acquired_def Let_def split: sum.splits prod.splits)

lemma acquire_maxSize: "maxSize (fst (acquire s m c t rnd)) = maxSize s"
  by (auto simp: acquire_def count_acquired_def Let_def split: sum.splits prod.splits)

lemma acquire_pool_length: "length (pool (fst (acquire s m c t rnd))) \<le> length (pool s)"
  by (auto simp: acquire_def count_acquired_def Let_def split: sum.splits prod.splits)

lemma release_activeCount: "activeCount (release s p) = activeCount s - 1"
  by (simp add: release_def Let_def)

lemma release_maxSize: "maxSize (release s p) = maxSize s"
  by (simp add: release_def Let_def)

lemma release_pool_length:
  "int (length (pool s)) \<le> maxSize s \<Longrightarrow> int (length (pool (release s p))) \<le> maxSize s"
  by (simp add: release_def Let_def)

lemma release_full: "maxSize s \<le> int (length (pool s)) \<Longrightarrow> pool (release s p) = pool s"
  by (simp add: release_def Let_def)

lemma pool_step_bounded:
  "int (length (pool s)) \<le> maxSize s \<Longrightarrow>
     int (length (pool (pool_step s c))) \<le> maxSize (pool_step s c)"
proof (cases c)
  case (Acquire m ce t rnd)
  assume "int (length (pool s)) \<le> maxSize s"
  then show ?thesis
    using acquire_pool_length [of s m ce t rnd] by (simp add: Acquire acquire_maxSize)
next
  case (Release p)
  assume "int (length (pool s)) \<le> maxSize s"
  then show ?thesis by (simp add: Release release_maxSize release_pool_length)
qed

lemma pool_states_active:
  "0 \<le> activeCount s \<Longrightarrow> releases_matched (activeCount s) calls \<Longrightarrow>
     \<forall>t\<in>set (pool_states s calls). 0 \<le> activeCount t"
proof (induction calls arbitrary: s)
  case Nil
  then show ?case by simp
next
  case (Cons c calls)
  show ?case
  proof (cases c)
    case (Acquire m ce t rnd)
    have a: "activeCount (pool_step s c) = activeCount s + 1"
      by (simp add: Acquire acquire_activeCount)
    have "0 \<le> activeCount (pool_step s c)" using a Cons.prems(1) by simp
    moreover have "releases_matched (activeCount (pool_step s c)) calls"
      using Cons.prems(2) a by (simp add: Acquire)
    ultimately show ?thesis using Cons.IH [of "pool_step s c"] by simp
  next
    case (Release p)
    have a: "activeCount (pool_step s c) = activeCount s - 1"
      by (simp add: Release release_activeCount)
    have "0 \<le> activeCount (pool_step s c)" using a Cons.prems(2) by (simp add: Release)
    moreover have "releases_matched (activeCount (pool_step s c)) calls"
      using Cons.prems(2) a by (simp add: Release)
    ultimately show ?thesis using Cons.IH [of "pool_step s c"] by simp
  qed
qed

lemma pool_states_bounded:
  "int (length (pool s)) \<le> maxSize s \<Longrightarrow>
     \<forall>t\<in>set (pool_states s calls). int (length (pool t)) \<le> maxSize t"
proof (induction calls arbitrary: s)
  case Nil
  then show ?case by simp
next
  case (Cons c calls)
  have "int (length (pool (pool_step s c))) \<le> maxSize (pool_step s c)"
    using Cons.prems by (rule pool_step_bounded)
  then show ?case using Cons.IH [of "pool_step s c"] by simp
qed

text \<open>
  Claim C5, as the code has it. Start from a pool with no negative count of active
  particles (a new pool has none) and make any sequence of \<open>acquire\<close> and \<open>release\<close>
  calls in which no call releases more particles than are active. Then \<open>activeCount\<close> is at
  least 0 after every call; a free list within \<open>maxSize\<close> stays within it after every
  call; and a \<open>release\<close> on a full free list, in any state, leaves the free list and
  \<open>maxSize\<close> as they were.
\<close>

theorem pool_conservation:
  assumes "0 \<le> activeCount s" and "releases_matched (activeCount s) calls"
  shows "(\<forall>t\<in>set (pool_states s calls). 0 \<le> activeCount t)
       \<and> (int (length (pool s)) \<le> maxSize s \<longrightarrow>
            (\<forall>t\<in>set (pool_states s calls). int (length (pool t)) \<le> maxSize t))
       \<and> (\<forall>t p. maxSize t \<le> int (length (pool t)) \<longrightarrow>
            pool (release t p) = pool t \<and> maxSize (release t p) = maxSize t)"
  using pool_states_active [OF assms] pool_states_bounded [of s calls]
  by (simp add: release_full release_maxSize)

lemma acquire_empty:
  "pool s = [] \<Longrightarrow> acquire s m c t rnd = (s\<lparr>activeCount := activeCount s + 1\<rparr>, Inl TypeError)"
  by (simp add: acquire_def new_without_arguments)

lemma pool_states_sample:
  "pool_states sample_pool
     [Acquire (Some flat_map) (Some (0, 0)) (Some ''Sacred Lake'') zero_draws,
      Release pooled_particle, Acquire None None None zero_draws,
      Release constructed_particle] =
     [\<lparr>pool = [], maxSize = 2000, activeCount = 1, totalCreated = 1, totalReused = 0\<rparr>,
      \<lparr>pool = [reset pooled_particle], maxSize = 2000, activeCount = 0, totalCreated = 1,
         totalReused = 0\<rparr>,
      \<lparr>pool = [], maxSize = 2000, activeCount = 1, totalCreated = 2, totalReused = 0\<rparr>,
      \<lparr>pool = [reset constructed_particle], maxSize = 2000, activeCount = 0,
         totalCreated = 2, totalReused = 0\<rparr>]"
proof -
  let ?s1 = "\<lparr>pool = [], maxSize = 2000, activeCount = 1, totalCreated = 1, totalReused = 0\<rparr>"
  let ?s2 = "\<lparr>pool = [reset pooled_particle], maxSize = 2000, activeCount = 0,
    totalCreated = 1, totalReused = 0\<rparr>"
  let ?s3 = "\<lparr>pool = [], maxSize = 2000, activeCount = 1, totalCreated = 2, totalReused = 0\<rparr>"
  let ?s4 = "\<lparr>pool = [reset constructed_particle], maxSize = 2000, activeCount = 0,
    totalCreated = 2, totalReused = 0\<rparr>"
  have 1: "pool_step sample_pool
      (Acquire (Some flat_map) (Some (0, 0)) (Some ''Sacred Lake'') zero_draws) = ?s1"
    by (simp add: acquire_sample)
  have 2: "pool_step ?s1 (Release pooled_particle) = ?s2"
    by (simp add: release_def)
  have 3: "pool_step ?s2 (Acquire None None None zero_draws) = ?s3"
    by (simp add: acquire_def count_acquired_def init_def)
  have 4: "pool_step ?s3 (Release constructed_particle) = ?s4"
    by (simp add: release_def)
  show ?thesis
    unfolding pool_states.simps 1 2 3 4 by (rule refl)
qed

text \<open>
  On the sample pool: acquire, release, an acquire that finds the free list empty, and a
  release. The counts of active particles are 1, 0, 1, 0 and the free list never
  exceeds one particle; a release on the pool resized to its length adds nothing.
\<close>

theorem pool_conservation_witness:
  "ParticlePool_new 0 zero_draws = Inr empty_pool
   \<and> 0 \<le> activeCount sample_pool
   \<and> releases_matched (activeCount sample_pool)
        [Acquire (Some flat_map) (Some (0, 0)) (Some ''Sacred Lake'') zero_draws,
         Release pooled_particle, Acquire None None None zero_draws,
         Release constructed_particle]
   \<and> map activeCount (pool_states sample_pool
        [Acquire (Some flat_map) (Some (0, 0)) (Some ''Sacred Lake'') zero_draws,
         Release pooled_particle, Acquire None None None zero_draws,
         Release constructed_particle]) = [1, 0, 1, 0]
   \<and> map (\<lambda>t. int (length (pool t))) (pool_states sample_pool
        [Acquire (Some flat_map) (Some (0, 0)) (Some ''Sacred Lake'') zero_draws,
         Release pooled_particle, Acquire None None None zero_draws,
         Release constructed_particle]) = [0, 1, 0, 1]
   \<and> pool (release (fst (resize sample_pool 1)) pooled_particle) = pool sample_pool"
proof -
  let ?calls = "[Acquire (Some flat_map) (Some (0, 0)) (Some ''Sacred Lake'') zero_draws,
         Release pooled_particle, Acquire None None None zero_draws,
         Release constructed_particle]"
  have h1: "0 \<le> activeCount sample_pool" by (simp add: sample_pool_eq)
  have h2: "releases_matched (activeCount sample_pool) ?calls" by (simp add: sample_pool_eq)
  have full: "maxSize (fst (resize sample_pool 1)) \<le> int (length (pool (fst (resize sample_pool 1))))"
    by (simp add: sample_pool_eq resize_def)
  have same: "pool (fst (resize sample_pool 1)) = pool sample_pool"
    by (simp add: sample_pool_eq resize_def)
  have rel: "pool (release (fst (resize sample_pool 1)) pooled_particle) = pool sample_pool"
    using pool_conservation [OF h1 h2] full same by simp
  have m1: "map activeCount (pool_states sample_pool ?calls) = [1, 0, 1, 0]"
    unfolding pool_states_sample by simp
  have m2: "map (\<lambda>t. int (length (pool t))) (pool_states sample_pool ?calls) = [0, 1, 0, 1]"
    unfolding pool_states_sample by simp
  show ?thesis
    using empty_pool_new [of zero_draws] h1 h2 rel m1 m2 by blast
qed

text \<open>
  Claim C5 as stated fails: \<open>release\<close> decrements without a check, so one \<open>release\<close> on
  the new pool \<open>new ParticlePool(0)\<close> leaves \<open>activeCount\<close> at -1.
\<close>

theorem unmatched_release_counterexample:
  "ParticlePool_new 0 zero_draws = Inr empty_pool
   \<and> map activeCount (pool_states empty_pool [Release constructed_particle]) = [- 1]"
  by (simp add: empty_pool_new) (simp add: empty_pool_def release_def)

section \<open>The particle limit of a particle system\<close>

lemma generateParticles_props:
  "generateParticles w s n rnds = (w', s', r) \<Longrightarrow>
     particleLimit s' = particleLimit s \<and> active s' = active s
     \<and> length (particles s') \<le> length (particles s) + n
     \<and> (r = None \<longrightarrow> length (particles s') = length (particles s) + n)"
proof (induction n arbitrary: w s rnds)
  case 0
  then show ?case by simp
next
  case (Suc n)
  let ?made = "(case particlePool w of
             Some pl \<Rightarrow>
               (case acquire pl (ps_map s) (Some (ld_center (lakeData s)))
                       (Some (ld_type (lakeData s))) (rnds 0) of
                  (pl1, r) \<Rightarrow> (w\<lparr>particlePool := Some pl1\<rparr>, r))
           | None \<Rightarrow>
               (w, Particle3D_new (ps_map s) (Some (ld_center (lakeData s)))
                     (Some (ld_type (lakeData s))) (rnds 0)))"
  obtain w1 res where made: "?made = (w1, res)" by (cases ?made)
  show ?case
  proof (cases res)
    case (Inl e)
    then have "generateParticles w s (Suc n) rnds = (w1, s, Some e)"
      using made by simp
    then show ?thesis using Suc.prems by auto
  next
    case (Inr particle)
    let ?s1 = "s\<lparr>particles := particles s @ [customizeParticle s particle]\<rparr>"
    have "generateParticles w s (Suc n) rnds
        = generateParticles w1 ?s1 n (\<lambda>i. rnds (Suc i))"
      using made Inr by simp
    then have "generateParticles w1 ?s1 n (\<lambda>i. rnds (Suc i)) = (w', s', r)"
      using Suc.prems by simp
    from Suc.IH [OF this] show ?thesis by simp
  qed
qed

lemma filter_particles_kept_length:
  "filter_particles sm delta ps = (mutated, Inr kept) \<Longrightarrow> length kept \<le> length ps"
proof (induction ps arbitrary: mutated kept)
  case Nil
  then show ?case by simp
next
  case (Cons p ps)
  then show ?case
    by (auto split: prod.splits sum.splits if_splits)
qed

lemma filter_particles_mutated_length:
  "length (fst (filter_particles sm delta ps)) = length ps"
  by (induction ps) (auto split: prod.splits sum.splits)

lemma update_method: "isExpired p = Method \<Longrightarrow> update sm p delta = (p, Inr False)"
  by (simp add: update_def)

lemma update_not_method:
  "isExpired p \<noteq> Method \<Longrightarrow> isExpired (fst (update sm p dt)) \<noteq> Method"
  by (cases "isExpired p")
    (auto simp: update_def update_tail_def legacy_move_def Let_def
      split: StateManager_binding.splits option.splits velocity_obj.splits prod.splits sum.splits)

lemma filter_particles_completes:
  "filter_particles sm delta ps = (mutated, Inr kept) \<Longrightarrow>
     mutated = ps \<and> (\<forall>p\<in>set ps. isExpired p = Method)
     \<and> kept = filter (\<lambda>p. age p < lifespan p) ps"
proof (induction ps arbitrary: mutated kept)
  case Nil
  then show ?case by simp
next
  case (Cons p ps)
  show ?case
  proof (cases "isExpired p = Method")
    case True
    then have u: "update sm p delta = (p, Inr False)" by (rule update_method)
    have c: "call_isExpired p = Inr (lifespan p \<le> age p)"
      using True by (simp add: call_isExpired_def)
    obtain m r where f: "filter_particles sm delta ps = (m, r)"
      by (cases "filter_particles sm delta ps")
    show ?thesis
    proof (cases r)
      case (Inl e)
      then show ?thesis using Cons.prems u c f by simp
    next
      case (Inr k)
      from Cons.IH [of m k] f Inr
      have "m = ps" "\<forall>q\<in>set ps. isExpired q = Method" "k = filter (\<lambda>q. age q < lifespan q) ps"
        by simp_all
      then show ?thesis using Cons.prems u c f Inr True by (auto simp: not_le)
    qed
  next
    case False
    obtain p1 r where u: "update sm p delta = (p1, r)" by (cases "update sm p delta")
    have "isExpired p1 \<noteq> Method" using update_not_method [OF False, of sm delta] u by simp
    then have "call_isExpired p1 = Inl TypeError"
      by (cases "isExpired p1") (simp_all add: call_isExpired_def)
    then show ?thesis using Cons.prems u by (cases r) simp_all
  qed
qed

lemma filter_particles_untouched:
  "\<forall>p\<in>set ps. isExpired p = Method \<and> age p < lifespan p \<Longrightarrow>
     filter_particles sm delta ps = (ps, Inr ps)"
  by (induction ps) (auto simp: update_def call_isExpired_def)

text \<open>
  Claim C6, as the code has it. One \<open>update\<close> call, whether it completes or throws, keeps
  \<open>particleLimit\<close>, and keeps the number of particles within the limit when it was within
  it before. When the system is active and the filter pass completes, it keeps the
  particles for which \<open>isExpired()\<close> is false (\<open>age < lifespan\<close>); a shortfall below
  the limit is then replenished by at most \<open>min(10, particleLimit - length)\<close> particles
  (exactly that many when the call completes), and when there is no shortfall the
  particles are the ones the filter kept: an overflow above the limit is not trimmed.
\<close>

theorem particle_system_update_limit:
  "case ParticleSystem_update w s delta rnds of
     (w', s', r) \<Rightarrow>
       particleLimit s' = particleLimit s
       \<and> (int (length (particles s)) \<le> particleLimit s \<longrightarrow>
            int (length (particles s')) \<le> particleLimit s)
       \<and> (\<forall>mutated kept.
            active s \<and> filter_particles (particle_sm w) delta (particles s) = (mutated, Inr kept)
            \<longrightarrow> kept = filter (\<lambda>p. age p < lifespan p) (particles s) \<and>
                (if int (length kept) < particleLimit s
                 then int (length (particles s'))
                        \<le> int (length kept) + min 10 (particleLimit s - int (length kept))
                      \<and> (r = None \<longrightarrow> int (length (particles s'))
                            = int (length kept) + min 10 (particleLimit s - int (length kept)))
                 else particles s' = kept))"
proof (cases "active s")
  case False
  then show ?thesis by (simp add: ParticleSystem_update_def)
next
  case True
  obtain mutated res where f: "filter_particles (particle_sm w) delta (particles s) = (mutated, res)"
    by (cases "filter_particles (particle_sm w) delta (particles s)")
  have ml: "length mutated = length (particles s)"
    using filter_particles_mutated_length [of "particle_sm w" delta "particles s"] f by simp
  show ?thesis
  proof (cases res)
    case (Inl e)
    then show ?thesis using True f ml by (simp add: ParticleSystem_update_def)
  next
    case (Inr kept)
    have kl: "length kept \<le> length (particles s)"
      using f Inr by (auto dest: filter_particles_kept_length)
    have kf: "filter (\<lambda>p. age p < lifespan p) (particles s) = kept"
      using f Inr filter_particles_completes [of "particle_sm w" delta "particles s" mutated kept]
      by simp
    let ?s1 = "s\<lparr>particles := kept\<rparr>"
    show ?thesis
    proof (cases "int (length kept) < particleLimit s")
      case False
      then show ?thesis using True f Inr kl kf by (simp add: ParticleSystem_update_def)
    next
      case short: True
      let ?n = "nat (min 10 (particleLimit s - int (length kept)))"
      obtain w2 s2 r where g: "generateParticles w ?s1 ?n rnds = (w2, s2, r)"
        by (cases "generateParticles w ?s1 ?n rnds")
      from generateParticles_props [OF g]
      have p: "particleLimit s2 = particleLimit s"
        "length (particles s2) \<le> length kept + ?n"
        "r = None \<longrightarrow> length (particles s2) = length kept + ?n"
        by simp_all
      have n: "int ?n = min 10 (particleLimit s - int (length kept))" using short by simp
      have le: "int (length (particles s2)) \<le> int (length kept) + min 10 (particleLimit s - int (length kept))"
        using p(2) n by linarith
      have eq: "r = None \<longrightarrow> int (length (particles s2)) = int (length kept) + min 10 (particleLimit s - int (length kept))"
        using p(3) n by linarith
      have lim: "int (length (particles s2)) \<le> particleLimit s" using le by linarith
      show ?thesis
      proof (cases r)
        case None
        then show ?thesis using True f Inr short g p(1) le eq lim kf
          by (simp add: ParticleSystem_update_def)
      next
        case (Some e)
        then show ?thesis using True f Inr short g p(1) le eq lim kf
          by (simp add: ParticleSystem_update_def)
      qed
    qed
  qed
qed

lemma salt_limit: "particleLimit (ParticleSystem_new m salt_lake) = 800"
  by (simp add: ParticleSystem_new_def salt_lake_def config_for_def glt_salt LAKE_CONFIG_def)

text \<open>
  Claim C6 as stated fails for a starting state above the limit: an active Salt Lake
  system (limit 800) with 801 live particles still has 801 after \<open>update\<close>.
\<close>

theorem overflow_not_trimmed_counterexample:
  "particleLimit overfull_system = 800
   \<and> length (particles overfull_system) = 801
   \<and> ParticleSystem_update \<lparr>particlePool = None, particle_sm = Unbound\<rparr> overfull_system 16
        (\<lambda>i. zero_draws)
      = (\<lparr>particlePool = None, particle_sm = Unbound\<rparr>,
         overfull_system\<lparr>frameCount := 1\<rparr>, None)
   \<and> length (particles (overfull_system\<lparr>frameCount := 1\<rparr>)) = 801"
proof -
  have lim: "particleLimit overfull_system = 800"
    by (simp add: overfull_system_def salt_limit)
  have ps: "particles overfull_system = replicate 801 constructed_particle"
    by (simp add: overfull_system_def)
  have act: "active overfull_system" by (simp add: overfull_system_def)
  have fc: "frameCount overfull_system = 0"
    by (simp add: overfull_system_def ParticleSystem_new_def)
  have "\<forall>p\<in>set (replicate 801 constructed_particle). isExpired p = Method \<and> age p < lifespan p"
    by (simp add: constructed_particle_def)
  then have f: "filter_particles Unbound 16 (replicate 801 constructed_particle)
       = (replicate 801 constructed_particle, Inr (replicate 801 constructed_particle))"
    by (rule filter_particles_untouched)
  have same: "overfull_system\<lparr>particles := replicate 801 constructed_particle\<rparr> = overfull_system"
    using ps by simp
  show ?thesis
    using lim ps act fc by (simp add: ParticleSystem_update_def f same)
qed

lemma new_with_arguments: "\<exists>p. Particle3D_new m (Some c) (Some t) rnd = Inr p"
  by (simp add: Particle3D_new_def Let_def)

lemma generateParticles_without_pool:
  "particlePool w = None \<Longrightarrow> snd (snd (generateParticles w s n rnds)) = None"
proof (induction n arbitrary: s rnds)
  case 0
  then show ?case by simp
next
  case (Suc n)
  obtain p where "Particle3D_new (ps_map s) (Some (ld_center (lakeData s)))
      (Some (ld_type (lakeData s))) (rnds 0) = Inr p"
    using new_with_arguments by blast
  then show ?case using Suc by simp
qed

text \<open>
  A Salt Lake system (limit 800) holding one constructed particle, in a world without a
  pool: the update completes and leaves 11 particles.
\<close>

theorem particle_system_update_limit_witness:
  "int (length (particles small_system)) \<le> particleLimit small_system
   \<and> active small_system
   \<and> filter_particles (particle_sm no_pool) 16 (particles small_system)
       = ([constructed_particle], Inr [constructed_particle])
   \<and> int (length [constructed_particle]) < particleLimit small_system
   \<and> snd (snd (ParticleSystem_update no_pool small_system 16 (\<lambda>i. zero_draws))) = None
   \<and> int (length (particles (fst (snd
        (ParticleSystem_update no_pool small_system 16 (\<lambda>i. zero_draws)))))) = 11
   \<and> particleLimit (fst (snd
        (ParticleSystem_update no_pool small_system 16 (\<lambda>i. zero_draws)))) = 800"
proof -
  let ?u = "ParticleSystem_update no_pool small_system 16 (\<lambda>i. zero_draws)"
  have lim: "particleLimit small_system = 800"
    by (simp add: small_system_def salt_limit)
  have ps: "particles small_system = [constructed_particle]"
    by (simp add: small_system_def)
  have act: "active small_system" by (simp add: small_system_def)
  have f: "filter_particles (particle_sm no_pool) 16 (particles small_system)
       = ([constructed_particle], Inr [constructed_particle])"
    unfolding ps by (rule filter_particles_untouched) (simp add: constructed_particle_def)
  obtain w' s' r where u: "?u = (w', s', r)" by (cases ?u)
  have g: "snd (snd (generateParticles no_pool (small_system\<lparr>particles := [constructed_particle]\<rparr>)
             (nat (min 10 (800 - 1))) (\<lambda>i. zero_draws))) = None"
    by (rule generateParticles_without_pool) (simp add: no_pool_def)
  have none: "r = None"
    using u g by (simp add: ParticleSystem_update_def act f lim split: option.splits prod.splits)
  from particle_system_update_limit [where w = no_pool and s = small_system and delta = 16
      and rnds = "\<lambda>i. zero_draws"]
  have "particleLimit s' = 800" and "int (length (particles s')) = 11"
    using u act f lim ps none by auto
  then show ?thesis using u lim ps act f none by simp
qed

section \<open>The spatial grid\<close>










lemma key_of_multiple:
  "0 < cellSize g \<Longrightarrow> key g (real_of_int x * cellSize g) (real_of_int y * cellSize g) = (x, y)"
  by (simp add: key_def)










section \<open>Quality transitions\<close>

lemma transitionLoop_idle: "targetLevel g = None \<Longrightarrow> transitionLoop g = g"
  by (simp add: transitionLoop_def)

lemma frames_idle: "targetLevel g = None \<Longrightarrow> frames n g = g"
  by (induction n) (simp_all add: transitionLoop_idle)

lemma frames_add: "frames (m + n) g = frames n (frames m g)"
  by (induction m arbitrary: g) simp_all

lemma transitionLoop_completes:
  assumes "targetLevel g = Some B" and "transitionProgress g < 1"
    and "1 \<le> transitionProgress g + transitionSpeed g"
  shows "completed B (transitionLoop g)"
  using assms by (simp add: transitionLoop_def notifySubscribers_def completed_def Let_def)

lemma transitionLoop_advances:
  assumes "targetLevel g = Some B" and "transitionProgress g < 1"
    and "transitionProgress g + transitionSpeed g < 1"
  shows "targetLevel (transitionLoop g) = Some B
       \<and> transitionProgress (transitionLoop g) = transitionProgress g + transitionSpeed g
       \<and> transitionSpeed (transitionLoop g) = transitionSpeed g"
  using assms
  by (simp add: transitionLoop_def updateIntermediateSettings_def applySettings_def
      notifySubscribers_def Let_def)

lemma frames_complete:
  assumes "targetLevel g = Some B" and "transitionProgress g < 1" and "0 < transitionSpeed g"
    and "1 \<le> transitionProgress g + real n * transitionSpeed g"
  shows "completed B (frames n g)"
  using assms
proof (induction n arbitrary: g)
  case 0
  then show ?case by simp
next
  case (Suc n)
  show ?case
  proof (cases "1 \<le> transitionProgress g + transitionSpeed g")
    case True
    have c: "completed B (transitionLoop g)"
      using Suc.prems(1,2) True by (rule transitionLoop_completes)
    then have "targetLevel (transitionLoop g) = None" by (simp add: completed_def)
    then have "frames n (transitionLoop g) = transitionLoop g" by (rule frames_idle)
    then show ?thesis using c by simp
  next
    case False
    then have lt: "transitionProgress g + transitionSpeed g < 1" by simp
    note adv = transitionLoop_advances [OF Suc.prems(1,2) lt]
    have "1 \<le> transitionProgress (transitionLoop g) + real n * transitionSpeed (transitionLoop g)"
      using adv Suc.prems(4) by (simp add: algebra_simps)
    moreover have "transitionProgress (transitionLoop g) < 1" using adv lt by simp
    moreover have "0 < transitionSpeed (transitionLoop g)" using adv Suc.prems(3) by simp
    ultimately have "completed B (frames n (transitionLoop g))"
      using Suc.IH adv by blast
    then show ?thesis by simp
  qed
qed

text \<open>
  Claim C8. Let the governor be at any tier, with a positive transition speed (the
  constructor sets 0.05), and call \<open>setQualityLevel\<close> with the name of another tier \<open>B\<close>.
  After \<open>ceil(1 / transitionSpeed)\<close> frames of the transition loop the progress has
  reached 1, \<open>currentLevel\<close> is \<open>B\<close>, \<open>targetLevel\<close> is \<open>null\<close>, and the last notification
  delivered to the subscribers is the \<open>'complete'\<close> one carrying exactly the preset of \<open>B\<close>;
  further frames change nothing.
\<close>

theorem quality_transition_converges:
  assumes "level_of_name name = Some B" and "B \<noteq> currentLevel g" and "0 < transitionSpeed g"
  shows "currentLevel (frames (nat \<lceil>1 / transitionSpeed g\<rceil>) (fst (setQualityLevel g name))) = B
       \<and> targetLevel (frames (nat \<lceil>1 / transitionSpeed g\<rceil>) (fst (setQualityLevel g name))) = None
       \<and> transitionProgress (frames (nat \<lceil>1 / transitionSpeed g\<rceil>) (fst (setQualityLevel g name))) = 1
       \<and> delivered (frames (nat \<lceil>1 / transitionSpeed g\<rceil>) (fst (setQualityLevel g name))) \<noteq> []
       \<and> last (delivered (frames (nat \<lceil>1 / transitionSpeed g\<rceil>) (fst (setQualityLevel g name))))
           = \<lparr>n_level = B, n_type = ''complete'', n_settings = QUALITY_PRESETS B\<rparr>
       \<and> (\<forall>m. frames (nat \<lceil>1 / transitionSpeed g\<rceil> + m) (fst (setQualityLevel g name))
              = frames (nat \<lceil>1 / transitionSpeed g\<rceil>) (fst (setQualityLevel g name)))"
proof -
  let ?g0 = "fst (setQualityLevel g name)"
  let ?n = "nat \<lceil>1 / transitionSpeed g\<rceil>"
  have g0: "targetLevel ?g0 = Some B" "transitionProgress ?g0 = 0"
    "transitionSpeed ?g0 = transitionSpeed g"
    using assms(1,2) by (simp_all add: setQualityLevel_def)
  have "0 < 1 / transitionSpeed g" using assms(3) by simp
  then have "0 \<le> \<lceil>1 / transitionSpeed g\<rceil>" by (simp only: zero_le_ceiling)
  then have "real ?n = real_of_int \<lceil>1 / transitionSpeed g\<rceil>" by simp
  moreover have "1 / transitionSpeed g \<le> real_of_int \<lceil>1 / transitionSpeed g\<rceil>"
    by (rule le_of_int_ceiling)
  ultimately have "1 / transitionSpeed g \<le> real ?n" by simp
  then have "1 \<le> real ?n * transitionSpeed g"
    using assms(3) by (simp only: pos_divide_le_eq)
  then have c: "completed B (frames ?n ?g0)"
    using frames_complete [of ?g0 B ?n] g0 assms(3) by simp
  then have "targetLevel (frames ?n ?g0) = None" by (simp add: completed_def)
  then have "frames (?n + m) ?g0 = frames ?n ?g0" for m
    by (simp add: frames_add frames_idle)
  then show ?thesis using c by (simp add: completed_def)
qed

text \<open>
  From the governor the constructor builds on a \<open>'high'\<close> device to \<open>'low'\<close>: 20 frames.
\<close>

theorem quality_transition_converges_witness:
  "level_of_name ''low'' = Some Low
   \<and> Low \<noteq> currentLevel (QualityGovernor_new ''high'')
   \<and> 0 < transitionSpeed (QualityGovernor_new ''high'')
   \<and> nat \<lceil>1 / transitionSpeed (QualityGovernor_new ''high'')\<rceil> = 20
   \<and> currentLevel (frames 20 (fst (setQualityLevel (QualityGovernor_new ''high'') ''low''))) = Low
   \<and> targetLevel (frames 20 (fst (setQualityLevel (QualityGovernor_new ''high'') ''low''))) = None
   \<and> n_settings (last (delivered
        (frames 20 (fst (setQualityLevel (QualityGovernor_new ''high'') ''low'')))))
       = QUALITY_PRESETS Low"
proof -
  have g: "QualityGovernor_new ''high'' =
      \<lparr>currentLevel = High, targetLevel = None, transitionProgress = 1.0,
        transitionSpeed = 0.05, delivered = [], maxActiveParticles = 2000\<rparr>"
    by (simp add: QualityGovernor_new_def setQualityLevel_def level_of_name_def)
  have h1: "level_of_name ''low'' = Some Low" by (simp add: level_of_name_def)
  have h2: "Low \<noteq> currentLevel (QualityGovernor_new ''high'')" by (simp add: g)
  have h3: "0 < transitionSpeed (QualityGovernor_new ''high'')" by (simp add: g)
  have n: "nat \<lceil>1 / transitionSpeed (QualityGovernor_new ''high'')\<rceil> = 20" by (simp add: g)
  show ?thesis
    using quality_transition_converges [OF h1 h2 h3] h1 h2 h3 n by simp
qed

section \<open>The culling distance\<close>

lemma adapt_bounds:
  "0 < cullingDistance s \<Longrightarrow> cullingDistance s \<le> 5000 \<Longrightarrow>
     0 < cullingDistance (adaptToPerformance s fps)
     \<and> cullingDistance (adaptToPerformance s fps) \<le> 5000"
  by (auto simp: adaptToPerformance_def Let_def)

lemma adapt_thresholds:
  "lowFPS (adaptToPerformance s fps) = lowFPS s \<and> targetFPS (adaptToPerformance s fps) = targetFPS s"
  by (simp add: adaptToPerformance_def Let_def)

lemma adapt_all_bounds:
  "0 < cullingDistance s \<Longrightarrow> cullingDistance s \<le> 5000 \<Longrightarrow>
     0 < cullingDistance (adapt_all s fpss) \<and> cullingDistance (adapt_all s fpss) \<le> 5000"
proof (induction fpss arbitrary: s)
  case Nil
  then show ?case by simp
next
  case (Cons fps fpss)
  from adapt_bounds [OF Cons.prems, of fps] Cons.IH [of "adaptToPerformance s fps"]
  show ?case by simp
qed

lemma adapt_low: "fps < lowFPS s \<Longrightarrow>
    cullingDistance (adaptToPerformance s fps) = cullingDistance s * 0.8"
  by (simp add: adaptToPerformance_def Let_def)

lemma adapt_all_low:
  "fps < lowFPS s \<Longrightarrow>
     cullingDistance (adapt_all s (replicate n fps)) = cullingDistance s * 0.8 ^ n"
proof (induction n arbitrary: s)
  case 0
  then show ?case by simp
next
  case (Suc n)
  have "fps < lowFPS (adaptToPerformance s fps)" using Suc.prems by (simp add: adapt_thresholds)
  from Suc.IH [OF this] show ?case using Suc.prems by (simp add: adapt_low)
qed

text \<open>
  Claim C9, as the code has it. Starting from a culling distance in (0, 5000], as
  configured, it stays in (0, 5000] across every sequence of \<open>adaptToPerformance\<close> calls.
  A call with \<open>fps\<close> below \<open>lowFPS\<close> multiplies it by 0.8, a call with \<open>fps\<close> above 90% of
  \<open>targetFPS\<close> sets it to \<open>min(5000, 1.1 * distance)\<close>, any other call leaves it. There
  is no floor above 0: below any positive bound it falls after enough low-FPS calls.
\<close>

theorem culling_distance_bounds:
  assumes "0 < cullingDistance s" and "cullingDistance s \<le> 5000"
  shows "0 < cullingDistance (adapt_all s fpss) \<and> cullingDistance (adapt_all s fpss) \<le> 5000
       \<and> (fps < lowFPS s \<longrightarrow>
            cullingDistance (adaptToPerformance s fps) = cullingDistance s * 0.8)
       \<and> (\<not> fps < lowFPS s \<and> targetFPS s * 0.9 < fps \<longrightarrow>
            cullingDistance (adaptToPerformance s fps) = min 5000 (cullingDistance s * 1.1))
       \<and> (\<not> fps < lowFPS s \<and> \<not> targetFPS s * 0.9 < fps \<longrightarrow>
            cullingDistance (adaptToPerformance s fps) = cullingDistance s)
       \<and> (\<forall>lim > 0. \<exists>n. cullingDistance (adapt_all s (replicate n (lowFPS s - 1))) < lim)"
proof -
  have none: "\<exists>n. cullingDistance (adapt_all s (replicate n (lowFPS s - 1))) < fl" if "0 < fl" for fl
  proof -
    have "0 < fl / cullingDistance s" using that assms(1) by simp
    then obtain n where "(0.8::real) ^ n < fl / cullingDistance s"
      using real_arch_pow_inv [of "fl / cullingDistance s" "0.8"] by auto
    then have "cullingDistance s * 0.8 ^ n < fl"
      using assms(1) by (simp add: pos_less_divide_eq mult.commute)
    moreover have "cullingDistance (adapt_all s (replicate n (lowFPS s - 1)))
        = cullingDistance s * 0.8 ^ n"
      by (rule adapt_all_low) simp
    ultimately have "cullingDistance (adapt_all s (replicate n (lowFPS s - 1))) < fl" by simp
    then show ?thesis by (rule exI)
  qed
  have grow: "cullingDistance (adaptToPerformance s fps) = min 5000 (cullingDistance s * 1.1)"
    if "\<not> fps < lowFPS s" "targetFPS s * 0.9 < fps"
    using that assms by (auto simp: adaptToPerformance_def Let_def)
  have keep: "cullingDistance (adaptToPerformance s fps) = cullingDistance s"
    if "\<not> fps < lowFPS s" "\<not> targetFPS s * 0.9 < fps"
    using that by (simp add: adaptToPerformance_def)
  show ?thesis
    using adapt_all_bounds [OF assms, of fpss] adapt_low [of fps s] grow keep none by blast
qed

text \<open>
  From the configured 5000: two low-FPS calls, one high-FPS call and one in between give
  3520; one low-FPS call gives 4000; a high-FPS call at 5000 leaves 5000.
\<close>

theorem culling_distance_bounds_witness:
  "0 < cullingDistance ParticleOptimizer_new \<and> cullingDistance ParticleOptimizer_new \<le> 5000
   \<and> cullingDistance (adapt_all ParticleOptimizer_new [20, 20, 58, 40]) = 3520
   \<and> 0 < cullingDistance (adapt_all ParticleOptimizer_new [20, 20, 58, 40])
   \<and> cullingDistance (adaptToPerformance ParticleOptimizer_new 20) = 4000
   \<and> cullingDistance (adaptToPerformance ParticleOptimizer_new 58) = 5000"
proof -
  have h: "0 < cullingDistance ParticleOptimizer_new" "cullingDistance ParticleOptimizer_new \<le> 5000"
    by (simp_all add: ParticleOptimizer_new_def)
  have v: "cullingDistance (adapt_all ParticleOptimizer_new [20, 20, 58, 40]) = 3520"
    by (simp add: ParticleOptimizer_new_def adaptToPerformance_def)
  have l: "lowFPS ParticleOptimizer_new = 30" "targetFPS ParticleOptimizer_new = 60"
    "cullingDistance ParticleOptimizer_new = 5000"
    by (simp_all add: ParticleOptimizer_new_def)
  show ?thesis
    using culling_distance_bounds [OF h, of "[20, 20, 58, 40]" 20]
      culling_distance_bounds [OF h, of "[]" 58] h v
    by (simp add: l)
qed

text \<open>
  Claim C9 as stated fails for the floor: forty calls at 20 FPS take the configured
  distance of 5000 below 1.
\<close>

theorem culling_distance_no_floor_counterexample:
  "cullingDistance (adapt_all ParticleOptimizer_new (replicate 40 20)) < 1"
proof -
  have "(20::real) < lowFPS ParticleOptimizer_new" by (simp add: ParticleOptimizer_new_def)
  from adapt_all_low [OF this, of 40]
  have "cullingDistance (adapt_all ParticleOptimizer_new (replicate 40 20)) = 5000 * 0.8 ^ 40"
    by (simp add: ParticleOptimizer_new_def)
  moreover have "(5000::real) * 0.8 ^ 40 < 1" by (simp add: power_divide)
  ultimately show ?thesis by simp
qed

end
